theory Spec2Isabelle
  imports Complex_Main "HOL-Library.Log_Nat"
begin

section \<open>The vision store: capture and analysis coordinator\<close>

text \<open>
  A shallow embedding of \<^verbatim>\<open>packages/stage-ui/src/stores/modules/vision.ts\<close>.
  The store is a record of its refs; every method is a function from the store to the
  updated store (and a return value). An \<^verbatim>\<open>async\<close> method is run to completion: the
  outcome of each platform promise it awaits (device APIs, the IPC call, the provider
  request) is an argument, so a rejected promise is a value and every
  \<^verbatim>\<open>try\<close>/\<^verbatim>\<open>catch\<close>/\<^verbatim>\<open>finally\<close> of the source is a branch. The model
  takes every awaited promise to settle. Two suspension points that properties below
  depend on are exposed, the provider request inside \<^verbatim>\<open>analyzeImage\<close> and the
  stream request inside \<^verbatim>\<open>startCapture\<close>: there the method is the composition of
  the part before the \<^verbatim>\<open>await\<close> and of its continuation, and other calls can be
  run between the two.
\<close>

subsection \<open>Data model\<close>

datatype CaptureSource = Screen | Camera | Window

datatype AnalysisMode = OnDemand | Continuous

text \<open>The \<^verbatim>\<open>type\<close> of a desktop source: \<^verbatim>\<open>'screen' | 'window'\<close>.\<close>

datatype SourceType = ScreenSource | WindowSource

record VisionAnalysisResult =
  timestamp :: int
  description :: string
  result_imageDataUrl :: "string option"

text \<open>
  A property of an options object is absent, present with the value \<^verbatim>\<open>undefined\<close>
  (which \<^verbatim>\<open>quality?: number\<close> admits), or present with a value. Object spread copies
  every own property, an \<^verbatim>\<open>undefined\<close> one too. The bounds are pixel counts, taken
  as integers; the quality is a number that is only handed on, taken as a rational.
\<close>

datatype 'a property = Absent | Undefined | Given 'a

record CaptureOptions =
  maxWidth :: "int property"
  maxHeight :: "int property"
  quality :: "rat property"

definition DEFAULT_CAPTURE_OPTIONS :: CaptureOptions where
  "DEFAULT_CAPTURE_OPTIONS = \<lparr>maxWidth = Given 1280, maxHeight = Given 720, quality = Given (7 / 10)\<rparr>"

text \<open>An entry of \<^verbatim>\<open>availableDesktopSources\<close>: \<^verbatim>\<open>{ id, name, thumbnail, type }\<close>.\<close>

record DesktopSource =
  src_id :: string
  src_name :: string
  src_thumbnail :: string
  src_type :: SourceType

text \<open>An entry of the IPC reply of \<^verbatim>\<open>electron.screen.getDesktopSources\<close>.\<close>

record RawSource =
  raw_id :: string
  raw_name :: string
  raw_thumbnail :: string

text \<open>One \<^verbatim>\<open>generateText\<close> request: the model, the system prompt and the image.\<close>

record ProviderRequest =
  req_model :: string
  req_system :: string
  req_image :: string

text \<open>
  The store. The persisted settings come first, then the session refs, then
  \<^verbatim>\<open>captureIntervalId\<close>. The last four fields are not refs of the store: they
  record what the store did to the platform, so that properties about streams, timers,
  frames and requests can be stated. \<open>liveStreams\<close> lists the acquired streams whose
  tracks have not been stopped, \<open>activeTimers\<close> the interval timers set and not
  cleared (with their period), \<open>framesDrawn\<close> counts \<^verbatim>\<open>drawImage\<close> calls and
  \<open>providerRequests\<close> logs the \<^verbatim>\<open>generateText\<close> calls. A media stream and a timer
  handle are natural numbers; a timer handle is never zero on the platform, so testing
  the handle for truth is testing it against \<^verbatim>\<open>null\<close>.
\<close>

record vision =
  activeVisionProvider :: string
  activeVisionModel :: string
  activeCustomModelName :: string
  visionModelSearchQuery :: string
  captureSource :: CaptureSource
  analysisMode :: AnalysisMode
  captureIntervalMs :: int
  compressionQuality :: rat
  maxImageWidth :: int
  maxImageHeight :: int
  selectedDesktopSourceId :: string
  isCapturing :: bool
  isAnalyzing :: bool
  lastAnalysisResult :: "VisionAnalysisResult option"
  analysisError :: "string option"
  currentStream :: "nat option"
  previewImageDataUrl :: "string option"
  availableDesktopSources :: "DesktopSource list"
  isLoadingDesktopSources :: bool
  captureIntervalId :: "nat option"
  liveStreams :: "nat list"
  activeTimers :: "(nat \<times> int) list"
  framesDrawn :: nat
  providerRequests :: "ProviderRequest list"

text \<open>A thrown value: an \<^verbatim>\<open>Error\<close> with its message, or anything else.\<close>

datatype thrown = ErrorObj string | NonError

text \<open>\<^verbatim>\<open>error instanceof Error ? error.message : 'Unknown error'\<close>\<close>

fun errorMessage :: "thrown \<Rightarrow> string" where
  "errorMessage (ErrorObj m) = m"
| "errorMessage NonError = ''Unknown error''"

text \<open>\<^verbatim>\<open>String.prototype.includes\<close>\<close>

fun includes_str :: "string \<Rightarrow> string \<Rightarrow> bool" where
  "includes_str [] p = (p = [])"
| "includes_str (c # cs) p = (take (length p) (c # cs) = p \<or> includes_str cs p)"

text \<open>\<^verbatim>\<open>String.prototype.startsWith\<close>\<close>

definition startsWith :: "string \<Rightarrow> string \<Rightarrow> bool" where
  "startsWith s p = (take (length p) s = p)"

subsection \<open>The platform's answers\<close>

text \<open>
  What \<^verbatim>\<open>startCapture\<close> and \<^verbatim>\<open>fetchDesktopSources\<close> meet:
  \<open>electron\<close> is \<^verbatim>\<open>isElectron()\<close>, \<open>electronApi\<close> says that
  \<^verbatim>\<open>window.electron\<close> is truthy, \<open>desktopSources\<close> is the outcome of the IPC call
  (a rejection, also one raised while mapping the reply, or the reply),
  \<open>navigatorThrows\<close> is the exception raised by reading \<^verbatim>\<open>navigator.mediaDevices\<close>
  outside an inner \<^verbatim>\<open>try\<close> (no \<^verbatim>\<open>navigator\<close> global), \<open>hasGetDisplayMedia\<close>
  and \<open>hasGetUserMedia\<close> say that the methods exist, and \<open>acquire\<close> is the
  outcome of the \<^verbatim>\<open>getUserMedia\<close>/\<^verbatim>\<open>getDisplayMedia\<close> call: a rejection (also the
  \<^verbatim>\<open>TypeError\<close> of calling it where it does not exist, inside the inner
  \<^verbatim>\<open>try\<close>), or the stream, possibly \<^verbatim>\<open>null\<close>.
\<close>

record capture_env =
  electron :: bool
  electronApi :: bool
  desktopSources :: "thrown + RawSource list"
  navigatorThrows :: "thrown option"
  hasGetDisplayMedia :: bool
  hasGetUserMedia :: bool
  acquire :: "thrown + nat option"

text \<open>
  What \<^verbatim>\<open>captureFrame\<close> meets: \<open>playRejects\<close> is the rejection of
  \<^verbatim>\<open>video.play()\<close>, if any; \<open>videoWidth\<close> and \<open>videoHeight\<close> are the frame's
  dimensions (\<^verbatim>\<open>unsigned long\<close>); \<open>hasContext\<close> says that
  \<^verbatim>\<open>canvas.getContext('2d')\<close> is not \<^verbatim>\<open>null\<close>; \<open>toDataURL\<close> is the encoder, a
  function of the canvas dimensions and of the quality it is called with.
\<close>

record frame_env =
  playRejects :: "thrown option"
  videoWidth :: nat
  videoHeight :: nat
  hasContext :: bool
  toDataURL :: "int option \<times> int option \<Rightarrow> rat \<Rightarrow> string"

text \<open>
  What \<^verbatim>\<open>analyzeImage\<close> meets once it is past its configuration check, in the order
  of the source: \<^verbatim>\<open>getProviderInstance\<close> rejects, or resolves to a falsy value;
  \<^verbatim>\<open>provider.chat(model)\<close> throws; the \<^verbatim>\<open>generateText\<close> request is issued and
  rejects, or resolves with \<^verbatim>\<open>res.text\<close> (possibly \<^verbatim>\<open>undefined\<close>).
\<close>

datatype analysis_outcome =
    InstanceRejected thrown
  | InstanceMissing
  | ChatThrows thrown
  | GenerateRejected thrown
  | Generated "string option"

record analysis_env =
  outcome :: analysis_outcome
  now :: int

subsection \<open>stopCapture\<close>

definition stopCapture :: "vision \<Rightarrow> vision" where
  "stopCapture s =
     (let s1 = (case currentStream s of
                  Some st \<Rightarrow> s\<lparr>liveStreams := filter (\<lambda>x. x \<noteq> st) (liveStreams s),
                                currentStream := None\<rparr>
                | None \<Rightarrow> s)
      in s1\<lparr>isCapturing := False, previewImageDataUrl := None\<rparr>)"

subsection \<open>captureFrame\<close>

text \<open>\<^verbatim>\<open>{ ...a, ...b }\<close>: a property of \<open>b\<close> that is present wins, whatever its value.\<close>

definition over :: "'a property \<Rightarrow> 'a property \<Rightarrow> 'a property" where
  "over a b = (case b of Absent \<Rightarrow> a | _ \<Rightarrow> b)"

definition spread :: "CaptureOptions \<Rightarrow> CaptureOptions option \<Rightarrow> CaptureOptions" where
  "spread a b =
     (case b of
        None \<Rightarrow> a
      | Some o' \<Rightarrow> \<lparr>maxWidth = over (maxWidth a) (maxWidth o'),
                    maxHeight = over (maxHeight a) (maxHeight o'),
                    quality = over (quality a) (quality o')\<rparr>)"

text \<open>Reading a property: \<^verbatim>\<open>undefined\<close> when it is absent or holds \<^verbatim>\<open>undefined\<close>.\<close>

fun read :: "'a property \<Rightarrow> 'a option" where
  "read (Given v) = Some v"
| "read _ = None"

text \<open>\<^verbatim>\<open>x > y\<close> where \<open>y\<close> may be \<^verbatim>\<open>undefined\<close>: a comparison with it is false.\<close>

fun js_gt :: "int \<Rightarrow> int option \<Rightarrow> bool" where
  "js_gt x (Some y) = (x > y)"
| "js_gt x None = False"

text \<open>
  The arithmetic of \<^verbatim>\<open>Math.round((height * opts.maxWidth) / width)\<close> is that of
  doubles: the product and the quotient are each rounded to the nearest double (ties
  to the even significand), and \<^verbatim>\<open>Math.round\<close> is \<open>\<lfloor>x + 1/2\<rfloor>\<close>, taken exactly. The
  operands are integers that are doubles (frame dimensions are \<^verbatim>\<open>unsigned long\<close>;
  a bound is taken to be an integer below \<open>2^53\<close> in absolute value), so every value
  here but the quotient is an integer, and the quotient is rounded at once.

  \<open>nearest_even p q\<close> is the integer nearest to \<open>p / q\<close>, the even one at a tie
  (\<open>0 \<le> p\<close>, \<open>0 < q\<close>).
\<close>

definition nearest_even :: "int \<Rightarrow> int \<Rightarrow> int" where
  "nearest_even p q =
     (let k = p div q; r = p mod q
      in if 2 * r < q then k else if q < 2 * r then k + 1 else if even k then k else k + 1)"

text \<open>The binary exponent \<open>\<lfloor>log\<^sub>2 (a / b)\<rfloor>\<close> of a quotient (\<open>0 < a\<close>, \<open>0 < b\<close>).\<close>

definition exponent :: "int \<Rightarrow> int \<Rightarrow> int" where
  "exponent a b =
     (let d = bitlen a - bitlen b
      in if (if 0 \<le> d then b * 2 ^ nat d \<le> a else b \<le> a * 2 ^ nat (- d)) then d else d - 1)"

text \<open>
  The double nearest to an integer: the integer itself below \<open>2^53\<close>, else the nearest
  multiple of the spacing of doubles at its size. It is what a product of two operands
  evaluates to.
\<close>

definition toDouble :: "int \<Rightarrow> int" where
  "toDouble p =
     (if \<bar>p\<bar> < 2 ^ 53 then p
      else let t = 2 ^ nat (bitlen \<bar>p\<bar> - 53) in sgn p * nearest_even \<bar>p\<bar> t * t)"

text \<open>
  \<^verbatim>\<open>Math.round(a / b)\<close> for \<open>b \<noteq> 0\<close>. With \<open>e\<close> the exponent of the quotient and
  \<open>s = 52 - e\<close>, the double quotient is \<open>n / 2^s\<close> where \<open>n\<close> is the integer nearest to
  \<open>a * 2^s / b\<close>; from \<open>2^52\<close> on (\<open>s \<le> 0\<close>) it is an integer already.
\<close>

definition round_quotient :: "int \<Rightarrow> int \<Rightarrow> int" where
  "round_quotient a b =
     (if a = 0 then 0
      else
        let sg = sgn a * sgn b; p = \<bar>a\<bar>; q = \<bar>b\<bar>; s = 52 - exponent p q
        in if 1 \<le> s
           then (2 * sg * nearest_even (p * 2 ^ nat s) q + 2 ^ nat s) div 2 ^ nat (s + 1)
           else sg * nearest_even p (q * 2 ^ nat (- s)) * 2 ^ nat (- s))"

text \<open>With \<open>b = 0\<close> the quotient is not a finite number: \<open>None\<close>.\<close>

definition js_round_div :: "int \<Rightarrow> int \<Rightarrow> int option" where
  "js_round_div a b = (if b = 0 then None else Some (round_quotient a b))"

text \<open>
  The two scaling steps of \<^verbatim>\<open>captureFrame\<close>, on \<open>(width, height)\<close>; a dimension is
  \<open>None\<close> when it is not a finite number. After the first step that is a height of
  \<^verbatim>\<open>NaN\<close> or \<^verbatim>\<open>-Infinity\<close> (a frame of width 0 and a negative bound), which is
  greater than no bound.

  \<^verbatim>\<open>if (width > opts.maxWidth) { height = Math.round((height * opts.maxWidth) / width); width = opts.maxWidth }\<close>
\<close>

definition fitWidth :: "int option \<Rightarrow> int \<times> int \<Rightarrow> int option \<times> int option" where
  "fitWidth mw d =
     (case d of (width, height) \<Rightarrow>
        if js_gt width mw
        then (mw, js_round_div (toDouble (height * the mw)) width)
        else (Some width, Some height))"

text \<open>\<^verbatim>\<open>if (height > opts.maxHeight) { width = Math.round((width * opts.maxHeight) / height); height = opts.maxHeight }\<close>\<close>

definition fitHeight :: "int option \<Rightarrow> int option \<times> int option \<Rightarrow> int option \<times> int option" where
  "fitHeight mh d =
     (case d of
        (width, Some height) \<Rightarrow>
          if js_gt height mh
          then ((case width of Some w \<Rightarrow> js_round_div (toDouble (w * the mh)) height | None \<Rightarrow> None), mh)
          else (width, Some height)
      | (width, None) \<Rightarrow> (width, None))"

definition scaleDimensions :: "int option \<Rightarrow> int option \<Rightarrow> int \<Rightarrow> int \<Rightarrow> int option \<times> int option" where
  "scaleDimensions mw mh vw vh = fitHeight mh (fitWidth mw (vw, vh))"

text \<open>\<^verbatim>\<open>opts.quality ?? compressionQuality.value\<close>\<close>

definition encodingQuality :: "CaptureOptions \<Rightarrow> vision \<Rightarrow> rat" where
  "encodingQuality opts s = (case read (quality opts) of Some q \<Rightarrow> q | None \<Rightarrow> compressionQuality s)"

text \<open>The dimensions the canvas is given for a frame.\<close>

definition canvasSize :: "frame_env \<Rightarrow> CaptureOptions \<Rightarrow> int option \<times> int option" where
  "canvasSize env opts =
     scaleDimensions (read (maxWidth opts)) (read (maxHeight opts))
       (int (videoWidth env)) (int (videoHeight env))"

text \<open>The \<^verbatim>\<open>try\<close> block of \<^verbatim>\<open>captureFrame\<close>: \<open>Inl\<close> is the exception it throws.\<close>

definition captureFrame_try :: "frame_env \<Rightarrow> CaptureOptions \<Rightarrow> vision \<Rightarrow> thrown + string \<times> vision" where
  "captureFrame_try env opts s =
     (case playRejects env of
        Some e \<Rightarrow> Inl e
      | None \<Rightarrow>
          if \<not> hasContext env then Inl (ErrorObj ''Failed to get canvas context'')
          else
            let dataUrl = toDataURL env (canvasSize env opts) (encodingQuality opts s)
            in Inr (dataUrl, s\<lparr>framesDrawn := framesDrawn s + 1,
                                previewImageDataUrl := Some dataUrl\<rparr>))"

definition captureFrame :: "frame_env \<Rightarrow> CaptureOptions option \<Rightarrow> vision \<Rightarrow> string option \<times> vision" where
  "captureFrame env options s =
     (case currentStream s of
        None \<Rightarrow> (None, s\<lparr>analysisError := Some ''No capture stream available. Start capture first.''\<rparr>)
      | Some st \<Rightarrow>
          (case captureFrame_try env (spread DEFAULT_CAPTURE_OPTIONS options) s of
             Inl e \<Rightarrow> (None, s\<lparr>analysisError := Some (''Failed to capture frame: '' @ errorMessage e)\<rparr>)
           | Inr (dataUrl, s') \<Rightarrow> (Some dataUrl, s')))"

subsection \<open>fetchDesktopSources\<close>

definition toDesktopSource :: "RawSource \<Rightarrow> DesktopSource" where
  "toDesktopSource source =
     \<lparr>src_id = raw_id source, src_name = raw_name source, src_thumbnail = raw_thumbnail source,
      src_type = (if startsWith (raw_id source) ''screen:'' then ScreenSource else WindowSource)\<rparr>"

text \<open>
  \<^verbatim>\<open>getElectronApi()\<close> is \<^verbatim>\<open>window.electron\<close> in Electron and \<^verbatim>\<open>null\<close> elsewhere;
  the method returns at once when it is falsy.
\<close>

definition fetchDesktopSources :: "capture_env \<Rightarrow> vision \<Rightarrow> vision" where
  "fetchDesktopSources env s =
     (if \<not> (electron env \<and> electronApi env) then s
      else
        let s1 = s\<lparr>isLoadingDesktopSources := True\<rparr>;
            s2 = (case desktopSources env of
                    Inr sources \<Rightarrow> s1\<lparr>availableDesktopSources := map toDesktopSource sources\<rparr>
                  | Inl e \<Rightarrow> s1\<lparr>availableDesktopSources := []\<rparr>)
        in s2\<lparr>isLoadingDesktopSources := False\<rparr>)"

subsection \<open>startCapture\<close>

text \<open>
  The block under \<^verbatim>\<open>if (!selectedDesktopSourceId.value)\<close>: the message of the
  failure it returns with, if any, and the store.
\<close>

definition chooseDesktopSource :: "capture_env \<Rightarrow> vision \<Rightarrow> string option \<times> vision" where
  "chooseDesktopSource env s =
     (if selectedDesktopSourceId s \<noteq> [] then (None, s)
      else
        let s1 = fetchDesktopSources env s in
        (case availableDesktopSources s1 of
           [] \<Rightarrow> (Some ''No screen or window sources available.'', s1)
         | first # rest \<Rightarrow>
             let sourceType = (if captureSource s1 = Screen then ScreenSource else WindowSource);
                 defaultSource = (case find (\<lambda>x. src_type x = sourceType) (availableDesktopSources s1) of
                                    Some x \<Rightarrow> x
                                  | None \<Rightarrow> first)
             in (None, s1\<lparr>selectedDesktopSourceId := src_id defaultSource\<rparr>)))"

text \<open>
  \<^verbatim>\<open>currentStream.value = await navigator.mediaDevices.getUserMedia(...)\<close> once the
  promise has resolved: the stream the platform handed out is live.
\<close>

definition holdStream :: "nat option \<Rightarrow> vision \<Rightarrow> vision" where
  "holdStream r s =
     (case r of
        Some st \<Rightarrow> s\<lparr>liveStreams := liveStreams s @ [st], currentStream := Some st\<rparr>
      | None \<Rightarrow> s\<lparr>currentStream := None\<rparr>)"

text \<open>The end of the \<^verbatim>\<open>try\<close> block, from \<^verbatim>\<open>if (!currentStream.value)\<close> on.\<close>

definition startCapture_finish :: "vision \<Rightarrow> bool \<times> vision" where
  "startCapture_finish s =
     (if currentStream s = None
      then (False, s\<lparr>analysisError := Some ''Failed to start capture stream.''\<rparr>)
      else (True, s\<lparr>isCapturing := True\<rparr>))"

text \<open>
  The outer \<^verbatim>\<open>try\<close> block of \<^verbatim>\<open>startCapture\<close>. \<open>Inl\<close> is an exception that no
  inner \<^verbatim>\<open>catch\<close> takes, with the store as it is then; \<open>Inr\<close> is a \<^verbatim>\<open>return\<close>.
\<close>

definition startCapture_try :: "capture_env \<Rightarrow> vision \<Rightarrow> thrown \<times> vision + bool \<times> vision" where
  "startCapture_try env s0 =
     (let s = (stopCapture s0)\<lparr>analysisError := None\<rparr> in
      if captureSource s = Screen \<or> captureSource s = Window then
        (if electron env then
           (case chooseDesktopSource env s of
              (Some msg, s1) \<Rightarrow> Inr (False, s1\<lparr>analysisError := Some msg\<rparr>)
            | (None, s1) \<Rightarrow>
                (case acquire env of
                   Inl electronError \<Rightarrow>
                     Inr (False, s1\<lparr>analysisError :=
                       Some (''Screen capture failed: '' @ errorMessage electronError
                             @ ''. Try selecting a different source.'')\<rparr>)
                 | Inr st \<Rightarrow> Inr (startCapture_finish (holdStream st s1))))
         else
           (case navigatorThrows env of
              Some e \<Rightarrow> Inl (e, s)
            | None \<Rightarrow>
                if \<not> hasGetDisplayMedia env
                then Inr (False, s\<lparr>analysisError := Some ''Screen capture is not supported in this browser.''\<rparr>)
                else
                  (case acquire env of
                     Inl displayError \<Rightarrow>
                       let m = errorMessage displayError in
                       Inr (False, s\<lparr>analysisError := Some
                         (if includes_str m ''NotAllowedError'' \<or> includes_str m ''Permission denied''
                          then ''Screen capture was denied. Please allow screen sharing permissions.''
                          else ''Screen capture failed: '' @ m)\<rparr>)
                   | Inr st \<Rightarrow> Inr (startCapture_finish (holdStream st s)))))
      else
        (case navigatorThrows env of
           Some e \<Rightarrow> Inl (e, s)
         | None \<Rightarrow>
             if \<not> hasGetUserMedia env
             then Inr (False, s\<lparr>analysisError := Some ''Camera access is not supported in this environment.''\<rparr>)
             else
               (case acquire env of
                  Inl cameraError \<Rightarrow>
                    let m = errorMessage cameraError in
                    Inr (False, s\<lparr>analysisError := Some
                      (if includes_str m ''NotAllowedError'' \<or> includes_str m ''Permission denied''
                       then ''Camera access was denied. Please allow camera permissions and try again.''
                       else if includes_str m ''NotFoundError''
                       then ''No camera found. Please connect a camera and try again.''
                       else ''Camera capture failed: '' @ m)\<rparr>)
                | Inr st \<Rightarrow> Inr (startCapture_finish (holdStream st s)))))"

text \<open>\<^verbatim>\<open>startCapture\<close>: the block, and the outer \<^verbatim>\<open>catch\<close>.\<close>

definition startCapture :: "capture_env \<Rightarrow> vision \<Rightarrow> bool \<times> vision" where
  "startCapture env s =
     (case startCapture_try env s of
        Inr r \<Rightarrow> r
      | Inl (error, s') \<Rightarrow>
          (False, s'\<lparr>analysisError := Some (''Failed to start capture: '' @ errorMessage error)\<rparr>))"

text \<open>
  The call split at the \<^verbatim>\<open>await\<close> of \<^verbatim>\<open>getUserMedia\<close>/\<^verbatim>\<open>getDisplayMedia\<close>,
  where the caller is suspended and other calls can run on the store. \<open>pending\<close>
  names the branch that waits. \<^verbatim>\<open>startCapture_begin\<close> is the call up to there:
  either it has returned (\<open>Inl\<close>, the outer \<^verbatim>\<open>catch\<close> included), or it waits
  (\<open>Inr\<close>) and has left the store given. \<^verbatim>\<open>startCapture_resume\<close> is the rest of
  the call, run on the store as it is when the promise settles.
\<close>

datatype pending = ElectronDesktop | BrowserDisplay | CameraDevice

text \<open>The message of the inner \<^verbatim>\<open>catch\<close> of each branch.\<close>

fun acquireFailure :: "pending \<Rightarrow> thrown \<Rightarrow> string" where
  "acquireFailure ElectronDesktop electronError =
     ''Screen capture failed: '' @ errorMessage electronError @ ''. Try selecting a different source.''"
| "acquireFailure BrowserDisplay displayError =
     (let m = errorMessage displayError in
      if includes_str m ''NotAllowedError'' \<or> includes_str m ''Permission denied''
      then ''Screen capture was denied. Please allow screen sharing permissions.''
      else ''Screen capture failed: '' @ m)"
| "acquireFailure CameraDevice cameraError =
     (let m = errorMessage cameraError in
      if includes_str m ''NotAllowedError'' \<or> includes_str m ''Permission denied''
      then ''Camera access was denied. Please allow camera permissions and try again.''
      else if includes_str m ''NotFoundError''
      then ''No camera found. Please connect a camera and try again.''
      else ''Camera capture failed: '' @ m)"

definition startCapture_begin :: "capture_env \<Rightarrow> vision \<Rightarrow> bool \<times> vision + pending \<times> vision" where
  "startCapture_begin env s0 =
     (let s = (stopCapture s0)\<lparr>analysisError := None\<rparr> in
      if captureSource s = Screen \<or> captureSource s = Window then
        (if electron env then
           (case chooseDesktopSource env s of
              (Some msg, s1) \<Rightarrow> Inl (False, s1\<lparr>analysisError := Some msg\<rparr>)
            | (None, s1) \<Rightarrow> Inr (ElectronDesktop, s1))
         else
           (case navigatorThrows env of
              Some e \<Rightarrow>
                Inl (False, s\<lparr>analysisError := Some (''Failed to start capture: '' @ errorMessage e)\<rparr>)
            | None \<Rightarrow>
                if \<not> hasGetDisplayMedia env
                then Inl (False, s\<lparr>analysisError := Some ''Screen capture is not supported in this browser.''\<rparr>)
                else Inr (BrowserDisplay, s)))
      else
        (case navigatorThrows env of
           Some e \<Rightarrow>
             Inl (False, s\<lparr>analysisError := Some (''Failed to start capture: '' @ errorMessage e)\<rparr>)
         | None \<Rightarrow>
             if \<not> hasGetUserMedia env
             then Inl (False, s\<lparr>analysisError := Some ''Camera access is not supported in this environment.''\<rparr>)
             else Inr (CameraDevice, s)))"

definition startCapture_resume :: "capture_env \<Rightarrow> pending \<Rightarrow> vision \<Rightarrow> bool \<times> vision" where
  "startCapture_resume env p s =
     (case acquire env of
        Inl e \<Rightarrow> (False, s\<lparr>analysisError := Some (acquireFailure p e)\<rparr>)
      | Inr st \<Rightarrow> startCapture_finish (holdStream st s))"

subsection \<open>analyzeImage\<close>

definition configured :: "vision \<Rightarrow> bool" where
  "configured s = (activeVisionProvider s \<noteq> [] \<and> activeVisionModel s \<noteq> [])"

definition defaultSystemPrompt :: string where
  "defaultSystemPrompt =
     ''You are AIRI's vision system. Describe what you see in this image concisely but comprehensively.\<newline>Focus on:\<newline>- What application or content is visible\<newline>- Any text or code that appears\<newline>- The general activity or context\<newline>- Anything notable or interesting\<newline>\<newline>Keep your response brief (2-3 sentences) unless there's something particularly important to note.''"

text \<open>The request \<^verbatim>\<open>generateText\<close> is called with, read from the store at that time.\<close>

definition requestFor :: "string \<Rightarrow> string option \<Rightarrow> vision \<Rightarrow> ProviderRequest" where
  "requestFor imageDataUrl prompt s =
     \<lparr>req_model = (if activeCustomModelName s \<noteq> [] then activeCustomModelName s
                    else activeVisionModel s),
      req_system = (case prompt of Some p \<Rightarrow> p | None \<Rightarrow> defaultSystemPrompt),
      req_image = imageDataUrl\<rparr>"

definition issue :: "ProviderRequest \<Rightarrow> vision \<Rightarrow> vision" where
  "issue r s = s\<lparr>providerRequests := providerRequests s @ [r]\<rparr>"

text \<open>The \<^verbatim>\<open>try\<close> block of \<^verbatim>\<open>analyzeImage\<close>.\<close>

definition analyzeImage_try ::
    "analysis_env \<Rightarrow> string \<Rightarrow> string option \<Rightarrow> vision \<Rightarrow> thrown \<times> vision + VisionAnalysisResult \<times> vision" where
  "analyzeImage_try env imageDataUrl prompt s =
     (case outcome env of
        InstanceRejected e \<Rightarrow> Inl (e, s)
      | InstanceMissing \<Rightarrow> Inl (ErrorObj ''Failed to get provider instance'', s)
      | ChatThrows e \<Rightarrow> Inl (e, s)
      | GenerateRejected e \<Rightarrow> Inl (e, issue (requestFor imageDataUrl prompt s) s)
      | Generated text \<Rightarrow>
          let s1 = issue (requestFor imageDataUrl prompt s) s;
              result = \<lparr>timestamp = now env,
                        description = (case text of Some t \<Rightarrow> t | None \<Rightarrow> []),
                        result_imageDataUrl = None\<rparr>
          in Inr (result, s1\<lparr>lastAnalysisResult := Some result\<rparr>))"

text \<open>
  The synchronous prefix past the configuration check: the store while the analysis is
  in flight.
\<close>

definition analyzeImage_begin :: "vision \<Rightarrow> vision" where
  "analyzeImage_begin s = s\<lparr>isAnalyzing := True, analysisError := None\<rparr>"

text \<open>The \<^verbatim>\<open>try\<close>/\<^verbatim>\<open>catch\<close>/\<^verbatim>\<open>finally\<close> statement.\<close>

definition analyzeImage_settle ::
    "analysis_env \<Rightarrow> string \<Rightarrow> string option \<Rightarrow> vision \<Rightarrow> VisionAnalysisResult option \<times> vision" where
  "analyzeImage_settle env imageDataUrl prompt s =
     (case (case analyzeImage_try env imageDataUrl prompt s of
              Inr (result, s1) \<Rightarrow> (Some result, s1)
            | Inl (error, s1) \<Rightarrow>
                (None, s1\<lparr>analysisError := Some (''Analysis failed: '' @ errorMessage error)\<rparr>))
      of (r, s2) \<Rightarrow> (r, s2\<lparr>isAnalyzing := False\<rparr>))"

definition analyzeImage ::
    "analysis_env \<Rightarrow> string \<Rightarrow> string option \<Rightarrow> vision \<Rightarrow> VisionAnalysisResult option \<times> vision" where
  "analyzeImage env imageDataUrl prompt s =
     (if activeVisionProvider s = [] \<or> activeVisionModel s = []
      then (None, s\<lparr>analysisError := Some ''Vision provider and model must be configured''\<rparr>)
      else analyzeImage_settle env imageDataUrl prompt (analyzeImage_begin s))"

subsection \<open>captureAndAnalyze\<close>

text \<open>\<^verbatim>\<open>!imageDataUrl\<close> holds of \<^verbatim>\<open>null\<close> and of the empty string.\<close>

definition captureAndAnalyze ::
    "frame_env \<Rightarrow> analysis_env \<Rightarrow> string option \<Rightarrow> vision \<Rightarrow> VisionAnalysisResult option \<times> vision" where
  "captureAndAnalyze fenv aenv prompt s =
     (case captureFrame fenv None s of
        (None, s1) \<Rightarrow> (None, s1)
      | (Some imageDataUrl, s1) \<Rightarrow>
          if imageDataUrl = [] then (None, s1)
          else analyzeImage aenv imageDataUrl prompt s1)"

subsection \<open>Continuous capture\<close>

definition stopContinuousCapture :: "vision \<Rightarrow> vision" where
  "stopContinuousCapture s =
     (case captureIntervalId s of
        Some t \<Rightarrow> s\<lparr>activeTimers := filter (\<lambda>x. fst x \<noteq> t) (activeTimers s),
                     captureIntervalId := None\<rparr>
      | None \<Rightarrow> s)"

text \<open>The callback given to \<^verbatim>\<open>setInterval\<close>, run at a tick.\<close>

definition tick :: "frame_env \<Rightarrow> analysis_env \<Rightarrow> vision \<Rightarrow> vision" where
  "tick fenv aenv s =
     (if \<not> isAnalyzing s \<and> isCapturing s then snd (captureAndAnalyze fenv aenv None s) else s)"

text \<open>\<open>handle\<close> is what \<^verbatim>\<open>setInterval\<close> returns.\<close>

definition startContinuousCapture :: "nat \<Rightarrow> vision \<Rightarrow> vision" where
  "startContinuousCapture handle s =
     (if analysisMode s \<noteq> Continuous then s
      else
        let s1 = stopContinuousCapture s
        in s1\<lparr>activeTimers := activeTimers s1 @ [(handle, captureIntervalMs s1)],
               captureIntervalId := Some handle\<rparr>)"

subsection \<open>resetState\<close>

text \<open>
  Modelled from the spec: \<^verbatim>\<open>createResettableLocalStorage\<close> and
  \<^verbatim>\<open>createResettableRef\<close> of \<^verbatim>\<open>utils/resettable\<close> are not among the sources. The
  spec says of the persisted settings that each is "independently resettable to its
  documented default": the reset function that comes with a ref stores the initial
  value the ref was created with. \<open>ref\<close> is the update of the field.
\<close>

definition createResettable :: "(('a \<Rightarrow> 'a) \<Rightarrow> vision \<Rightarrow> vision) \<Rightarrow> 'a \<Rightarrow> vision \<Rightarrow> vision" where
  "createResettable ref initial s = ref (\<lambda>_. initial) s"

definition resetActiveVisionProvider :: "vision \<Rightarrow> vision" where
  "resetActiveVisionProvider = createResettable activeVisionProvider_update []"

definition resetActiveVisionModel :: "vision \<Rightarrow> vision" where
  "resetActiveVisionModel = createResettable activeVisionModel_update []"

definition resetActiveCustomModelName :: "vision \<Rightarrow> vision" where
  "resetActiveCustomModelName = createResettable activeCustomModelName_update []"

definition resetVisionModelSearchQuery :: "vision \<Rightarrow> vision" where
  "resetVisionModelSearchQuery = createResettable visionModelSearchQuery_update []"

definition resetCaptureSource :: "vision \<Rightarrow> vision" where
  "resetCaptureSource = createResettable captureSource_update Screen"

definition resetAnalysisMode :: "vision \<Rightarrow> vision" where
  "resetAnalysisMode = createResettable analysisMode_update OnDemand"

definition resetCaptureIntervalMs :: "vision \<Rightarrow> vision" where
  "resetCaptureIntervalMs = createResettable captureIntervalMs_update 5000"

definition resetCompressionQuality :: "vision \<Rightarrow> vision" where
  "resetCompressionQuality = createResettable compressionQuality_update (7 / 10)"

definition resetMaxImageWidth :: "vision \<Rightarrow> vision" where
  "resetMaxImageWidth = createResettable maxImageWidth_update 1280"

definition resetMaxImageHeight :: "vision \<Rightarrow> vision" where
  "resetMaxImageHeight = createResettable maxImageHeight_update 720"

definition resetSelectedDesktopSourceId :: "vision \<Rightarrow> vision" where
  "resetSelectedDesktopSourceId = createResettable selectedDesktopSourceId_update []"

definition resetState :: "vision \<Rightarrow> vision" where
  "resetState s =
     (let s1 = stopContinuousCapture s;
          s2 = stopCapture s1;
          s3 = resetActiveVisionProvider s2;
          s4 = resetActiveVisionModel s3;
          s5 = resetActiveCustomModelName s4;
          s6 = resetVisionModelSearchQuery s5;
          s7 = resetCaptureSource s6;
          s8 = resetAnalysisMode s7;
          s9 = resetCaptureIntervalMs s8;
          s10 = resetCompressionQuality s9;
          s11 = resetMaxImageWidth s10;
          s12 = resetMaxImageHeight s11;
          s13 = resetSelectedDesktopSourceId s12
      in s13\<lparr>lastAnalysisResult := None, analysisError := None, previewImageDataUrl := None\<rparr>)"

subsection \<open>The public operations\<close>

text \<open>
  A call of a method of the store, with the platform's answers to it, and a tick of the
  continuous timer.
\<close>

datatype operation =
    StartCapture capture_env
  | StopCapture
  | CaptureFrame frame_env "CaptureOptions option"
  | AnalyzeImage analysis_env string "string option"
  | CaptureAndAnalyze frame_env analysis_env "string option"
  | StartContinuousCapture nat
  | StopContinuousCapture
  | FetchDesktopSources capture_env
  | ResetState
  | Tick frame_env analysis_env

fun run :: "operation \<Rightarrow> vision \<Rightarrow> vision" where
  "run (StartCapture env) s = snd (startCapture env s)"
| "run StopCapture s = stopCapture s"
| "run (CaptureFrame env options) s = snd (captureFrame env options s)"
| "run (AnalyzeImage env imageDataUrl prompt) s = snd (analyzeImage env imageDataUrl prompt s)"
| "run (CaptureAndAnalyze fenv aenv prompt) s = snd (captureAndAnalyze fenv aenv prompt s)"
| "run (StartContinuousCapture handle) s = startContinuousCapture handle s"
| "run StopContinuousCapture s = stopContinuousCapture s"
| "run (FetchDesktopSources env) s = fetchDesktopSources env s"
| "run ResetState s = resetState s"
| "run (Tick fenv aenv) s = tick fenv aenv s"

text \<open>Whether an operation is a call of \<^verbatim>\<open>startCapture\<close>.\<close>

fun isStartCapture :: "operation \<Rightarrow> bool" where
  "isStartCapture (StartCapture env) = True"
| "isStartCapture _ = False"

text \<open>The store as \<^verbatim>\<open>defineStore\<close> creates it, over the settings read from storage.\<close>

definition freshSession :: "vision \<Rightarrow> vision" where
  "freshSession settings =
     settings\<lparr>visionModelSearchQuery := [], isCapturing := False, isAnalyzing := False,
              lastAnalysisResult := None, analysisError := None, currentStream := None,
              previewImageDataUrl := None, availableDesktopSources := [],
              isLoadingDesktopSources := False, captureIntervalId := None,
              liveStreams := [], activeTimers := [], framesDrawn := 0, providerRequests := []\<rparr>"

text \<open>
  The stream discipline: the live streams are exactly the held one, and
  \<^verbatim>\<open>isCapturing\<close> says whether one is held.
\<close>

definition oneStream :: "vision \<Rightarrow> bool" where
  "oneStream s =
     (liveStreams s = (case currentStream s of None \<Rightarrow> [] | Some st \<Rightarrow> [st])
      \<and> isCapturing s = (currentStream s \<noteq> None))"

text \<open>The timer discipline: the timers set and not cleared are exactly the held handle's.\<close>

definition oneTimer :: "vision \<Rightarrow> bool" where
  "oneTimer s = (map fst (activeTimers s) = (case captureIntervalId s of None \<Rightarrow> [] | Some t \<Rightarrow> [t]))"

subsection \<open>Concrete stores and platform answers\<close>

text \<open>
  The store of a first launch: every setting at the default its ref is created with,
  and the session empty.
\<close>

definition initialStore :: vision where
  "initialStore =
     \<lparr>activeVisionProvider = [], activeVisionModel = [], activeCustomModelName = [],
      visionModelSearchQuery = [], captureSource = Screen, analysisMode = OnDemand,
      captureIntervalMs = 5000, compressionQuality = 7 / 10, maxImageWidth = 1280,
      maxImageHeight = 720, selectedDesktopSourceId = [], isCapturing = False,
      isAnalyzing = False, lastAnalysisResult = None, analysisError = None,
      currentStream = None, previewImageDataUrl = None, availableDesktopSources = [],
      isLoadingDesktopSources = False, captureIntervalId = None, liveStreams = [],
      activeTimers = [], framesDrawn = 0, providerRequests = []\<rparr>"

text \<open>A browser that grants screen sharing and hands out stream 1.\<close>

definition grantingBrowser :: capture_env where
  "grantingBrowser =
     \<lparr>electron = False, electronApi = False, desktopSources = Inr [], navigatorThrows = None,
      hasGetDisplayMedia = True, hasGetUserMedia = True, acquire = Inr (Some 1)\<rparr>"

text \<open>A browser whose user denies the camera.\<close>

definition denyingBrowser :: capture_env where
  "denyingBrowser =
     \<lparr>electron = False, electronApi = False, desktopSources = Inr [], navigatorThrows = None,
      hasGetDisplayMedia = True, hasGetUserMedia = True,
      acquire = Inl (ErrorObj ''Permission denied'')\<rparr>"

text \<open>A 2560 by 1441 frame; the encoder's output tells the quality it was given.\<close>

definition wideFrame :: frame_env where
  "wideFrame =
     \<lparr>playRejects = None, videoWidth = 2560, videoHeight = 1441, hasContext = True,
      toDataURL = (\<lambda>d q. if q = 7 / 10 then ''data:image/jpeg;q=0.7'' else ''data:image/jpeg;q=other'')\<rparr>"

text \<open>A provider that answers.\<close>

definition answeringProvider :: analysis_env where
  "answeringProvider = \<lparr>outcome = Generated (Some ''A code editor is open.''), now = 1700000000000\<rparr>"

text \<open>The first-launch store once screen capture has started, and once a provider is chosen.\<close>

definition capturingStore :: vision where
  "capturingStore = snd (startCapture grantingBrowser initialStore)"

text \<open>
  Two overlapping calls on the first-launch store, in a browser that hands out stream 1
  and then stream 2: the first call reaches its \<^verbatim>\<open>await\<close>, the second call starts
  and reaches its own, then the first resumes and then the second.
\<close>

definition secondGrant :: capture_env where
  "secondGrant = grantingBrowser\<lparr>acquire := Inr (Some 2)\<rparr>"

definition overlappingCalls :: vision where
  "overlappingCalls =
     (case startCapture_begin grantingBrowser initialStore of
        Inl r \<Rightarrow> snd r
      | Inr (p1, s1) \<Rightarrow>
          (case startCapture_begin secondGrant s1 of
             Inl r \<Rightarrow> snd r
           | Inr (p2, s2) \<Rightarrow>
               snd (startCapture_resume secondGrant p2
                      (snd (startCapture_resume grantingBrowser p1 s2)))))"

definition configuredStore :: vision where
  "configuredStore = capturingStore\<lparr>activeVisionProvider := ''openai'', activeVisionModel := ''gpt-4o''\<rparr>"






text \<open>An options object that carries \<^verbatim>\<open>quality: undefined\<close>.\<close>

definition undefinedQuality :: CaptureOptions where
  "undefinedQuality = \<lparr>maxWidth = Absent, maxHeight = Absent, quality = Undefined\<rparr>"

section \<open>Properties\<close>

subsection \<open>Rounding in doubles\<close>










subsection \<open>The two scaling steps\<close>








text \<open>With no numeric bound on either axis (both \<^verbatim>\<open>undefined\<close>) the frame is not scaled.\<close>

lemma scaleDimensions_unbounded: "scaleDimensions None None vw vh = (Some vw, Some vh)"
  by (simp add: scaleDimensions_def fitWidth_def fitHeight_def)

subsection \<open>The concrete stores\<close>

lemma capturingStore_eq:
  "capturingStore = initialStore\<lparr>isCapturing := True, currentStream := Some 1, liveStreams := [1]\<rparr>"
  by (simp add: capturingStore_def startCapture_def startCapture_try_def stopCapture_def
      initialStore_def grantingBrowser_def holdStream_def startCapture_finish_def)

subsection \<open>captureFrame\<close>








text \<open>
  Claim C7. With no stream held, and so right after \<^verbatim>\<open>stopCapture\<close>,
  \<^verbatim>\<open>captureFrame\<close> returns \<^verbatim>\<open>null\<close> and its only effect is to store the "no
  capture stream" message in \<^verbatim>\<open>analysisError\<close>: no preview is set, no frame is
  drawn, and the \<^verbatim>\<open>try\<close> block, the only place that throws, is not entered.
\<close>

theorem captureFrame_without_stream:
  "captureFrame env options (stopCapture s) =
     (None, (stopCapture s)\<lparr>analysisError := Some ''No capture stream available. Start capture first.''\<rparr>)
   \<and> previewImageDataUrl (snd (captureFrame env options (stopCapture s))) = None
   \<and> (currentStream s = None \<longrightarrow>
        captureFrame env options s =
          (None, s\<lparr>analysisError := Some ''No capture stream available. Start capture first.''\<rparr>))"
  by (simp add: captureFrame_def stopCapture_def Let_def split: option.splits)

theorem captureFrame_without_stream_witness:
  "currentStream initialStore = None
   \<and> captureFrame wideFrame None initialStore =
        (None, initialStore\<lparr>analysisError := Some ''No capture stream available. Start capture first.''\<rparr>)
   \<and> captureFrame wideFrame None (stopCapture capturingStore) =
        (None, initialStore\<lparr>analysisError := Some ''No capture stream available. Start capture first.''\<rparr>)"
proof -
  have n: "currentStream initialStore = None" by (simp add: initialStore_def)
  have st: "stopCapture capturingStore = initialStore"
    by (simp add: capturingStore_eq stopCapture_def initialStore_def)
  from captureFrame_without_stream[of wideFrame None initialStore] n
       captureFrame_without_stream[of wideFrame None capturingStore] st
  show ?thesis by simp
qed

text \<open>
  Claim C10, as the code has it. When \<^verbatim>\<open>captureFrame\<close> is called without options, or
  with options that have no \<^verbatim>\<open>quality\<close> property, the quality handed to the encoder
  is the constant 0.7, and \<^verbatim>\<open>compressionQuality\<close> is not read: changing the setting
  changes neither the result nor the rest of the store. The merged quality is
  \<^verbatim>\<open>undefined\<close> exactly when the options carry \<^verbatim>\<open>quality: undefined\<close>, and then
  the quality used is \<^verbatim>\<open>compressionQuality\<close>.
\<close>

theorem quality_default_when_absent:
  assumes "options = None \<or> (\<exists>opts. options = Some opts \<and> quality opts = Absent)"
  shows "encodingQuality (spread DEFAULT_CAPTURE_OPTIONS options) s = 7 / 10
         \<and> captureFrame env options (s\<lparr>compressionQuality := q\<rparr>) =
             (fst (captureFrame env options s),
              (snd (captureFrame env options s))\<lparr>compressionQuality := q\<rparr>)
         \<and> (read (quality (spread DEFAULT_CAPTURE_OPTIONS options')) = None)
             = (\<exists>opts. options' = Some opts \<and> quality opts = Undefined)
         \<and> encodingQuality (spread DEFAULT_CAPTURE_OPTIONS (Some (opts'\<lparr>quality := Undefined\<rparr>))) s
             = compressionQuality s"
proof -
  have q: "read (quality (spread DEFAULT_CAPTURE_OPTIONS options)) = Some (7 / 10)"
    using assms by (auto simp: spread_def over_def DEFAULT_CAPTURE_OPTIONS_def)
  then have 1: "\<And>s. encodingQuality (spread DEFAULT_CAPTURE_OPTIONS options) s = 7 / 10"
    by (simp add: encodingQuality_def)
  have 2: "captureFrame env options (s\<lparr>compressionQuality := q\<rparr>) =
             (fst (captureFrame env options s),
              (snd (captureFrame env options s))\<lparr>compressionQuality := q\<rparr>)"
    by (simp add: captureFrame_def captureFrame_try_def 1 Let_def split: option.splits)
  have 3: "(read (quality (spread DEFAULT_CAPTURE_OPTIONS options')) = None)
             = (\<exists>opts. options' = Some opts \<and> quality opts = Undefined)"
  proof (cases options')
    case None
    then show ?thesis by (simp add: spread_def DEFAULT_CAPTURE_OPTIONS_def)
  next
    case (Some opts)
    then show ?thesis
      by (cases "quality opts") (simp_all add: spread_def over_def DEFAULT_CAPTURE_OPTIONS_def)
  qed
  have 4: "encodingQuality (spread DEFAULT_CAPTURE_OPTIONS (Some (opts'\<lparr>quality := Undefined\<rparr>))) s
             = compressionQuality s"
    by (simp add: encodingQuality_def spread_def over_def)
  from 1 2 3 4 show ?thesis by blast
qed

theorem quality_default_when_absent_witness:
  "encodingQuality (spread DEFAULT_CAPTURE_OPTIONS None) (capturingStore\<lparr>compressionQuality := 9 / 10\<rparr>) = 7 / 10
   \<and> fst (captureFrame wideFrame None (capturingStore\<lparr>compressionQuality := 9 / 10\<rparr>))
        = Some ''data:image/jpeg;q=0.7''"
proof -
  have c: "fst (captureFrame wideFrame None capturingStore) = Some ''data:image/jpeg;q=0.7''"
    by (simp add: captureFrame_def captureFrame_try_def capturingStore_eq initialStore_def
        wideFrame_def spread_def DEFAULT_CAPTURE_OPTIONS_def encodingQuality_def Let_def)
  from quality_default_when_absent[of None "capturingStore\<lparr>compressionQuality := 9 / 10\<rparr>" wideFrame "9 / 10" None undefinedQuality]
    quality_default_when_absent[of None capturingStore wideFrame "9 / 10" None undefinedQuality] c
  show ?thesis by simp
qed

text \<open>
  Claim C10 as stated says that the fallback \<^verbatim>\<open>?? compressionQuality.value\<close> is
  reached for no input. It is reached for \<^verbatim>\<open>captureFrame({ quality: undefined })\<close>:
  the spread copies the \<^verbatim>\<open>undefined\<close> over the default, and the frame is encoded
  with the setting, here 0.9, not with 0.7.
\<close>

theorem quality_fallback_reached:
  "read (quality (spread DEFAULT_CAPTURE_OPTIONS (Some undefinedQuality))) = None
   \<and> encodingQuality (spread DEFAULT_CAPTURE_OPTIONS (Some undefinedQuality))
        (capturingStore\<lparr>compressionQuality := 9 / 10\<rparr>) = 9 / 10
   \<and> fst (captureFrame wideFrame (Some undefinedQuality) (capturingStore\<lparr>compressionQuality := 9 / 10\<rparr>))
        = Some ''data:image/jpeg;q=other''
   \<and> fst (captureFrame wideFrame (Some undefinedQuality) (capturingStore\<lparr>compressionQuality := 7 / 10\<rparr>))
        = Some ''data:image/jpeg;q=0.7''"
  by (simp add: captureFrame_def captureFrame_try_def capturingStore_eq initialStore_def
      wideFrame_def spread_def over_def DEFAULT_CAPTURE_OPTIONS_def encodingQuality_def
      undefinedQuality_def Let_def)

subsection \<open>stopCapture and resetState\<close>

text \<open>
  Claim C8. \<^verbatim>\<open>stopCapture\<close> is idempotent. After it \<^verbatim>\<open>isCapturing\<close> is false, no
  stream is held, the stream that was held is no longer live, and the preview is
  cleared; \<^verbatim>\<open>lastAnalysisResult\<close> is what it was. With no stream held it only
  clears \<^verbatim>\<open>isCapturing\<close> and the preview.
\<close>

theorem stopCapture_idempotent:
  "stopCapture (stopCapture s) = stopCapture s
   \<and> \<not> isCapturing (stopCapture s)
   \<and> currentStream (stopCapture s) = None
   \<and> previewImageDataUrl (stopCapture s) = None
   \<and> lastAnalysisResult (stopCapture s) = lastAnalysisResult s
   \<and> (case currentStream s of
         None \<Rightarrow> stopCapture s = s\<lparr>isCapturing := False, previewImageDataUrl := None\<rparr>
       | Some st \<Rightarrow> st \<notin> set (liveStreams (stopCapture s)))"
  by (simp add: stopCapture_def Let_def split: option.splits)

lemmas reset_defs = createResettable_def resetActiveVisionProvider_def resetActiveVisionModel_def
  resetActiveCustomModelName_def resetVisionModelSearchQuery_def resetCaptureSource_def
  resetAnalysisMode_def resetCaptureIntervalMs_def resetCompressionQuality_def
  resetMaxImageWidth_def resetMaxImageHeight_def resetSelectedDesktopSourceId_def

text \<open>
  Claim C9. \<^verbatim>\<open>resetState\<close> clears the timer handle and the timer it named, releases
  and stops the held stream, puts every persisted setting back to the default its ref
  is created with in the source (empty provider, model, custom model name and desktop
  source id; \<^verbatim>\<open>'screen'\<close>; \<^verbatim>\<open>'on-demand'\<close>; 5000 ms; 0.7; 1280; 720), and
  clears \<^verbatim>\<open>lastAnalysisResult\<close>, \<^verbatim>\<open>analysisError\<close> and the preview.
\<close>

theorem resetState_defaults:
  "captureIntervalId (resetState s) = None
   \<and> (case captureIntervalId s of None \<Rightarrow> True
       | Some t \<Rightarrow> t \<notin> fst ` set (activeTimers (resetState s)))
   \<and> currentStream (resetState s) = None
   \<and> \<not> isCapturing (resetState s)
   \<and> (case currentStream s of None \<Rightarrow> True
       | Some st \<Rightarrow> st \<notin> set (liveStreams (resetState s)))
   \<and> activeVisionProvider (resetState s) = []
   \<and> activeVisionModel (resetState s) = []
   \<and> activeCustomModelName (resetState s) = []
   \<and> captureSource (resetState s) = Screen
   \<and> analysisMode (resetState s) = OnDemand
   \<and> captureIntervalMs (resetState s) = 5000
   \<and> compressionQuality (resetState s) = 7 / 10
   \<and> maxImageWidth (resetState s) = 1280
   \<and> maxImageHeight (resetState s) = 720
   \<and> selectedDesktopSourceId (resetState s) = []
   \<and> lastAnalysisResult (resetState s) = None
   \<and> analysisError (resetState s) = None
   \<and> previewImageDataUrl (resetState s) = None"
  by (auto simp add: resetState_def reset_defs stopCapture_def stopContinuousCapture_def Let_def
      split: option.splits)

subsection \<open>analyzeImage\<close>



subsection \<open>captureAndAnalyze\<close>

lemma captureFrame_None:
  assumes "fst (captureFrame env options s) = None"
  shows "providerRequests (snd (captureFrame env options s)) = providerRequests s
         \<and> framesDrawn (snd (captureFrame env options s)) = framesDrawn s
         \<and> previewImageDataUrl (snd (captureFrame env options s)) = previewImageDataUrl s"
  using assms
  by (auto simp: captureFrame_def captureFrame_try_def Let_def split: option.splits if_splits)

text \<open>
  Claim C4. \<^verbatim>\<open>captureAndAnalyze\<close> captures the frame first. When
  \<^verbatim>\<open>captureFrame\<close> returns \<^verbatim>\<open>null\<close> it returns \<^verbatim>\<open>null\<close> with the store
  \<^verbatim>\<open>captureFrame\<close> left and issues no request; when it returns a data URL, the
  result is that of \<^verbatim>\<open>analyzeImage\<close> on this URL, run on the store
  \<^verbatim>\<open>captureFrame\<close> left. So with a stream held, a frame that can be played,
  drawn and encoded, and the provider or the model unset, the frame is drawn and the
  preview set, and then the configuration check of \<^verbatim>\<open>analyzeImage\<close> fails: the
  result is \<^verbatim>\<open>null\<close> and \<^verbatim>\<open>analysisError\<close> holds the configuration message.
\<close>

theorem captureAndAnalyze_frame_first:
  "(fst (captureFrame fenv None s) = None \<longrightarrow>
      captureAndAnalyze fenv aenv prompt s = (None, snd (captureFrame fenv None s))
      \<and> providerRequests (snd (captureAndAnalyze fenv aenv prompt s)) = providerRequests s)
   \<and> (captureFrame fenv None s = (Some url, s1) \<and> url \<noteq> [] \<longrightarrow>
      captureAndAnalyze fenv aenv prompt s = analyzeImage aenv url prompt s1)
   \<and> (currentStream s \<noteq> None \<and> playRejects fenv = None \<and> hasContext fenv
       \<and> toDataURL fenv (canvasSize fenv DEFAULT_CAPTURE_OPTIONS) (7 / 10) = url \<and> url \<noteq> []
       \<and> (activeVisionProvider s = [] \<or> activeVisionModel s = []) \<longrightarrow>
      captureAndAnalyze fenv aenv prompt s =
        (None, s\<lparr>framesDrawn := framesDrawn s + 1, previewImageDataUrl := Some url,
                  analysisError := Some ''Vision provider and model must be configured''\<rparr>))"
proof (intro conjI impI)
  assume n: "fst (captureFrame fenv None s) = None"
  then show "captureAndAnalyze fenv aenv prompt s = (None, snd (captureFrame fenv None s))"
    by (cases "captureFrame fenv None s") (simp add: captureAndAnalyze_def)
  then show "providerRequests (snd (captureAndAnalyze fenv aenv prompt s)) = providerRequests s"
    using captureFrame_None[OF n] by simp
next
  assume "captureFrame fenv None s = (Some url, s1) \<and> url \<noteq> []"
  then show "captureAndAnalyze fenv aenv prompt s = analyzeImage aenv url prompt s1"
    by (simp add: captureAndAnalyze_def)
next
  assume a: "currentStream s \<noteq> None \<and> playRejects fenv = None \<and> hasContext fenv
       \<and> toDataURL fenv (canvasSize fenv DEFAULT_CAPTURE_OPTIONS) (7 / 10) = url \<and> url \<noteq> []
       \<and> (activeVisionProvider s = [] \<or> activeVisionModel s = [])"
  then have "captureFrame fenv None s =
      (Some url, s\<lparr>framesDrawn := framesDrawn s + 1, previewImageDataUrl := Some url\<rparr>)"
    by (auto simp: captureFrame_def captureFrame_try_def spread_def encodingQuality_def
        DEFAULT_CAPTURE_OPTIONS_def Let_def)
  with a show "captureAndAnalyze fenv aenv prompt s =
        (None, s\<lparr>framesDrawn := framesDrawn s + 1, previewImageDataUrl := Some url,
                  analysisError := Some ''Vision provider and model must be configured''\<rparr>)"
    by (auto simp: captureAndAnalyze_def analyzeImage_def)
qed

theorem captureAndAnalyze_frame_first_witness:
  "fst (captureFrame wideFrame None initialStore) = None
   \<and> captureAndAnalyze wideFrame answeringProvider None initialStore =
        (None, initialStore\<lparr>analysisError := Some ''No capture stream available. Start capture first.''\<rparr>)
   \<and> currentStream capturingStore = Some 1
   \<and> activeVisionProvider capturingStore = []
   \<and> captureAndAnalyze wideFrame answeringProvider None capturingStore =
        (None, capturingStore\<lparr>framesDrawn := 1, previewImageDataUrl := Some ''data:image/jpeg;q=0.7'',
                  analysisError := Some ''Vision provider and model must be configured''\<rparr>)
   \<and> captureAndAnalyze wideFrame answeringProvider None configuredStore =
        analyzeImage answeringProvider ''data:image/jpeg;q=0.7'' None
          (configuredStore\<lparr>framesDrawn := 1, previewImageDataUrl := Some ''data:image/jpeg;q=0.7''\<rparr>)"
proof -
  have f0: "captureFrame wideFrame None initialStore =
        (None, initialStore\<lparr>analysisError := Some ''No capture stream available. Start capture first.''\<rparr>)"
    by (simp add: captureFrame_def initialStore_def)
  have cs: "currentStream capturingStore = Some 1" "activeVisionProvider capturingStore = []"
    "framesDrawn capturingStore = 0"
    by (simp_all add: capturingStore_eq initialStore_def)
  have wf: "playRejects wideFrame = None" "hasContext wideFrame"
    "toDataURL wideFrame (canvasSize wideFrame DEFAULT_CAPTURE_OPTIONS) (7 / 10) = ''data:image/jpeg;q=0.7''"
    by (simp_all add: wideFrame_def)
  have f2: "captureFrame wideFrame None configuredStore =
     (Some ''data:image/jpeg;q=0.7'',
      configuredStore\<lparr>framesDrawn := 1, previewImageDataUrl := Some ''data:image/jpeg;q=0.7''\<rparr>)"
    by (simp add: captureFrame_def captureFrame_try_def configuredStore_def capturingStore_eq
        initialStore_def wideFrame_def spread_def DEFAULT_CAPTURE_OPTIONS_def encodingQuality_def Let_def)
  from captureAndAnalyze_frame_first[of wideFrame initialStore answeringProvider None "''x''" initialStore] f0
  have 1: "captureAndAnalyze wideFrame answeringProvider None initialStore =
        (None, initialStore\<lparr>analysisError := Some ''No capture stream available. Start capture first.''\<rparr>)"
    by simp
  from captureAndAnalyze_frame_first[of wideFrame capturingStore answeringProvider None
      "''data:image/jpeg;q=0.7''" initialStore] cs wf
  have 2: "captureAndAnalyze wideFrame answeringProvider None capturingStore =
        (None, capturingStore\<lparr>framesDrawn := 1, previewImageDataUrl := Some ''data:image/jpeg;q=0.7'',
                  analysisError := Some ''Vision provider and model must be configured''\<rparr>)"
    by simp
  from captureAndAnalyze_frame_first[of wideFrame configuredStore answeringProvider None
      "''data:image/jpeg;q=0.7''"
      "configuredStore\<lparr>framesDrawn := 1, previewImageDataUrl := Some ''data:image/jpeg;q=0.7''\<rparr>"] f2
  have 3: "captureAndAnalyze wideFrame answeringProvider None configuredStore =
        analyzeImage answeringProvider ''data:image/jpeg;q=0.7'' None
          (configuredStore\<lparr>framesDrawn := 1, previewImageDataUrl := Some ''data:image/jpeg;q=0.7''\<rparr>)"
    by simp
  from f0 1 2 3 cs show ?thesis by simp
qed

subsection \<open>Continuous capture\<close>

lemma oneTimer_stop: "oneTimer s \<Longrightarrow> activeTimers (stopContinuousCapture s) = []"
proof (cases "captureIntervalId s")
  case None
  assume "oneTimer s"
  with None show ?thesis by (simp add: oneTimer_def stopContinuousCapture_def)
next
  case (Some t)
  assume "oneTimer s"
  with Some have "map fst (activeTimers s) = [t]" by (simp add: oneTimer_def)
  then have "set (map fst (activeTimers s)) = {t}" by simp
  then have "\<forall>x \<in> set (activeTimers s). fst x = t" by auto
  then have "filter (\<lambda>x. fst x \<noteq> t) (activeTimers s) = []"
    by (simp add: filter_empty_conv)
  with Some show ?thesis by (simp add: stopContinuousCapture_def)
qed



subsection \<open>startCapture\<close>

lemma fetchDesktopSources_keeps:
  "liveStreams (fetchDesktopSources env s) = liveStreams s
   \<and> currentStream (fetchDesktopSources env s) = currentStream s
   \<and> isCapturing (fetchDesktopSources env s) = isCapturing s
   \<and> analysisError (fetchDesktopSources env s) = analysisError s
   \<and> captureIntervalId (fetchDesktopSources env s) = captureIntervalId s
   \<and> activeTimers (fetchDesktopSources env s) = activeTimers s
   \<and> isAnalyzing (fetchDesktopSources env s) = isAnalyzing s"
  by (simp add: fetchDesktopSources_def Let_def split: sum.splits)

lemma chooseDesktopSource_keeps:
  "liveStreams (snd (chooseDesktopSource env s)) = liveStreams s
   \<and> currentStream (snd (chooseDesktopSource env s)) = currentStream s
   \<and> isCapturing (snd (chooseDesktopSource env s)) = isCapturing s
   \<and> analysisError (snd (chooseDesktopSource env s)) = analysisError s
   \<and> captureIntervalId (snd (chooseDesktopSource env s)) = captureIntervalId s
   \<and> activeTimers (snd (chooseDesktopSource env s)) = activeTimers s
   \<and> isAnalyzing (snd (chooseDesktopSource env s)) = isAnalyzing s
   \<and> (case fst (chooseDesktopSource env s) of None \<Rightarrow> True | Some msg \<Rightarrow> msg \<noteq> [])"
  using fetchDesktopSources_keeps[of env s]
  by (simp add: chooseDesktopSource_def Let_def split: list.splits option.splits)

lemma stopCapture_twice: "stopCapture (stopCapture s) = stopCapture s"
  by (simp add: stopCapture_def Let_def split: option.splits)

lemma startCapture_try_stop: "startCapture_try env (stopCapture s) = startCapture_try env s"
  by (simp only: startCapture_try_def stopCapture_twice)

text \<open>The outcomes of the outer try block of startCapture, as a predicate on what it leaves.\<close>

lemma startCapture_shape:
  "case startCapture_try env s of
     Inl (e, s1) \<Rightarrow> currentStream s1 = None \<and> \<not> isCapturing s1
                     \<and> liveStreams s1 = liveStreams (stopCapture s)
                     \<and> activeTimers s1 = activeTimers s \<and> captureIntervalId s1 = captureIntervalId s
                     \<and> isAnalyzing s1 = isAnalyzing s
   | Inr (ok, s') \<Rightarrow>
       activeTimers s' = activeTimers s \<and> captureIntervalId s' = captureIntervalId s
       \<and> isAnalyzing s' = isAnalyzing s
       \<and> (if ok then isCapturing s' \<and> analysisError s' = None
                  \<and> (\<exists>st. acquire env = Inr (Some st) \<and> currentStream s' = Some st
                           \<and> liveStreams s' = liveStreams (stopCapture s) @ [st])
       else \<not> isCapturing s' \<and> currentStream s' = None
            \<and> liveStreams s' = liveStreams (stopCapture s)
            \<and> (\<exists>msg. analysisError s' = Some msg \<and> msg \<noteq> []))"
  (is "?P (startCapture_try env s)")
proof -
  define s0 where "s0 = (stopCapture s)\<lparr>analysisError := None\<rparr>"
  have s0: "currentStream s0 = None" "\<not> isCapturing s0" "analysisError s0 = None"
    "liveStreams s0 = liveStreams (stopCapture s)"
    "activeTimers s0 = activeTimers s" "captureIntervalId s0 = captureIntervalId s"
    "isAnalyzing s0 = isAnalyzing s"
    by (simp_all add: s0_def stopCapture_def Let_def split: option.splits)
  have fin: "?P (Inr (startCapture_finish (holdStream st s1)))"
    if "currentStream s1 = None" "\<not> isCapturing s1" "liveStreams s1 = liveStreams (stopCapture s)"
       "analysisError s1 = None" "acquire env = Inr st"
       "activeTimers s1 = activeTimers s" "captureIntervalId s1 = captureIntervalId s"
       "isAnalyzing s1 = isAnalyzing s" for s1 st
    using that by (cases st) (simp_all add: holdStream_def startCapture_finish_def)
  have thrown: "?P (Inl (e, s0))" for e
    using s0 by simp
  obtain r s1 where c: "chooseDesktopSource env s0 = (r, s1)" by fastforce
  from chooseDesktopSource_keeps[of env s0] c s0
  have s1: "currentStream s1 = None" "\<not> isCapturing s1" "analysisError s1 = None"
    "liveStreams s1 = liveStreams (stopCapture s)"
    "case r of None \<Rightarrow> True | Some msg \<Rightarrow> msg \<noteq> []"
    "activeTimers s1 = activeTimers s" "captureIntervalId s1 = captureIntervalId s"
    "isAnalyzing s1 = isAnalyzing s"
    by simp_all
  have electron: "?P (case chooseDesktopSource env s0 of
              (Some msg, s1) \<Rightarrow> Inr (False, s1\<lparr>analysisError := Some msg\<rparr>)
            | (None, s1) \<Rightarrow>
                (case acquire env of
                   Inl electronError \<Rightarrow>
                     Inr (False, s1\<lparr>analysisError :=
                       Some (''Screen capture failed: '' @ errorMessage electronError
                             @ ''. Try selecting a different source.'')\<rparr>)
                 | Inr st \<Rightarrow> Inr (startCapture_finish (holdStream st s1))))"
  proof (cases r)
    case None
    show ?thesis
    proof (cases "acquire env")
      case (Inl e)
      with None c show ?thesis using s1(1,2,4,6,7,8) by simp
    next
      case (Inr st)
      with None c show ?thesis using fin[OF s1(1,2,4,3) Inr s1(6,7,8)] by simp
    qed
  next
    case (Some msg)
    with s1(5) have "msg \<noteq> []" by simp
    with Some c show ?thesis using s1(1,2,4,6,7,8) by simp
  qed
  have display: "?P (case acquire env of
                     Inl displayError \<Rightarrow>
                       let m = errorMessage displayError in
                       Inr (False, s0\<lparr>analysisError := Some
                         (if includes_str m ''NotAllowedError'' \<or> includes_str m ''Permission denied''
                          then ''Screen capture was denied. Please allow screen sharing permissions.''
                          else ''Screen capture failed: '' @ m)\<rparr>)
                   | Inr st \<Rightarrow> Inr (startCapture_finish (holdStream st s0)))"
  proof (cases "acquire env")
    case (Inl e)
    then show ?thesis using s0(1,2,4,5,6,7) by (simp add: Let_def)
  next
    case (Inr st)
    then show ?thesis using fin[OF s0(1,2,4,3) Inr s0(5,6,7)] by simp
  qed
  have camera: "?P (case acquire env of
                  Inl cameraError \<Rightarrow>
                    let m = errorMessage cameraError in
                    Inr (False, s0\<lparr>analysisError := Some
                      (if includes_str m ''NotAllowedError'' \<or> includes_str m ''Permission denied''
                       then ''Camera access was denied. Please allow camera permissions and try again.''
                       else if includes_str m ''NotFoundError''
                       then ''No camera found. Please connect a camera and try again.''
                       else ''Camera capture failed: '' @ m)\<rparr>)
                | Inr st \<Rightarrow> Inr (startCapture_finish (holdStream st s0)))"
  proof (cases "acquire env")
    case (Inl e)
    then show ?thesis using s0(1,2,4,5,6,7) by (simp add: Let_def)
  next
    case (Inr st)
    then show ?thesis using fin[OF s0(1,2,4,3) Inr s0(5,6,7)] by simp
  qed
  have unsupported: "?P (Inr (False, s0\<lparr>analysisError := Some msg\<rparr>))" if "msg \<noteq> []" for msg
    using s0(1,2,4,5,6,7) that by simp
  have eq: "startCapture_try env s =
     (if captureSource s0 = Screen \<or> captureSource s0 = Window then
        (if electron env then
           (case chooseDesktopSource env s0 of
              (Some msg, s1) \<Rightarrow> Inr (False, s1\<lparr>analysisError := Some msg\<rparr>)
            | (None, s1) \<Rightarrow>
                (case acquire env of
                   Inl electronError \<Rightarrow>
                     Inr (False, s1\<lparr>analysisError :=
                       Some (''Screen capture failed: '' @ errorMessage electronError
                             @ ''. Try selecting a different source.'')\<rparr>)
                 | Inr st \<Rightarrow> Inr (startCapture_finish (holdStream st s1))))
         else
           (case navigatorThrows env of
              Some e \<Rightarrow> Inl (e, s0)
            | None \<Rightarrow>
                if \<not> hasGetDisplayMedia env
                then Inr (False, s0\<lparr>analysisError := Some ''Screen capture is not supported in this browser.''\<rparr>)
                else
                  (case acquire env of
                     Inl displayError \<Rightarrow>
                       let m = errorMessage displayError in
                       Inr (False, s0\<lparr>analysisError := Some
                         (if includes_str m ''NotAllowedError'' \<or> includes_str m ''Permission denied''
                          then ''Screen capture was denied. Please allow screen sharing permissions.''
                          else ''Screen capture failed: '' @ m)\<rparr>)
                   | Inr st \<Rightarrow> Inr (startCapture_finish (holdStream st s0)))))
      else
        (case navigatorThrows env of
           Some e \<Rightarrow> Inl (e, s0)
         | None \<Rightarrow>
             if \<not> hasGetUserMedia env
             then Inr (False, s0\<lparr>analysisError := Some ''Camera access is not supported in this environment.''\<rparr>)
             else
               (case acquire env of
                  Inl cameraError \<Rightarrow>
                    let m = errorMessage cameraError in
                    Inr (False, s0\<lparr>analysisError := Some
                      (if includes_str m ''NotAllowedError'' \<or> includes_str m ''Permission denied''
                       then ''Camera access was denied. Please allow camera permissions and try again.''
                       else if includes_str m ''NotFoundError''
                       then ''No camera found. Please connect a camera and try again.''
                       else ''Camera capture failed: '' @ m)\<rparr>)
                | Inr st \<Rightarrow> Inr (startCapture_finish (holdStream st s0)))))"
    unfolding startCapture_try_def s0_def Let_def ..
  show ?thesis
  proof (cases "captureSource s0 = Screen \<or> captureSource s0 = Window")
    case desktop: True
    show ?thesis
    proof (cases "electron env")
      case True
      with desktop electron show ?thesis by (simp only: eq if_True)
    next
      case browser: False
      show ?thesis
      proof (cases "navigatorThrows env")
        case (Some e)
        with desktop browser thrown[of e] show ?thesis
          by (simp only: eq if_True if_False option.case)
      next
        case None
        show ?thesis
        proof (cases "hasGetDisplayMedia env")
          case True
          with desktop browser None display show ?thesis
            by (simp only: eq if_True if_False option.case not_True_eq_False)
        next
          case False
          with desktop browser None
            unsupported[of "''Screen capture is not supported in this browser.''"]
          show ?thesis
            by (simp only: eq if_True if_False option.case not_False_eq_True) simp
        qed
      qed
    qed
  next
    case cam: False
    show ?thesis
    proof (cases "navigatorThrows env")
      case (Some e)
      with cam thrown[of e] show ?thesis
        by (simp only: eq if_True if_False option.case)
    next
      case None
      show ?thesis
      proof (cases "hasGetUserMedia env")
        case True
        with cam None camera show ?thesis
          by (simp only: eq if_True if_False option.case not_True_eq_False)
      next
        case False
        with cam None
          unsupported[of "''Camera access is not supported in this environment.''"]
        show ?thesis
          by (simp only: eq if_True if_False option.case not_False_eq_True) simp
      qed
    qed
  qed
qed

lemma startCapture_try_Inl:
  assumes "startCapture_try env s = Inl (e, s1)"
  shows "currentStream s1 = None \<and> \<not> isCapturing s1 \<and> liveStreams s1 = liveStreams (stopCapture s)
         \<and> activeTimers s1 = activeTimers s \<and> captureIntervalId s1 = captureIntervalId s
                     \<and> isAnalyzing s1 = isAnalyzing s"
  using startCapture_shape[where env=env and s=s] assms by simp

lemma startCapture_try_Inr:
  assumes "startCapture_try env s = Inr (ok, s')"
  shows "activeTimers s' = activeTimers s \<and> captureIntervalId s' = captureIntervalId s
       \<and> isAnalyzing s' = isAnalyzing s
       \<and> (if ok then isCapturing s' \<and> analysisError s' = None
                  \<and> (\<exists>st. acquire env = Inr (Some st) \<and> currentStream s' = Some st
                           \<and> liveStreams s' = liveStreams (stopCapture s) @ [st])
       else \<not> isCapturing s' \<and> currentStream s' = None
            \<and> liveStreams s' = liveStreams (stopCapture s)
            \<and> (\<exists>msg. analysisError s' = Some msg \<and> msg \<noteq> []))"
  using startCapture_shape[where env=env and s=s] assms by simp

lemma startCapture_result:
  assumes "startCapture env s = (ok, s')"
  shows "activeTimers s' = activeTimers s \<and> captureIntervalId s' = captureIntervalId s
       \<and> isAnalyzing s' = isAnalyzing s
       \<and> (if ok then isCapturing s' \<and> analysisError s' = None
                  \<and> (\<exists>st. acquire env = Inr (Some st) \<and> currentStream s' = Some st
                           \<and> liveStreams s' = liveStreams (stopCapture s) @ [st])
       else \<not> isCapturing s' \<and> currentStream s' = None
            \<and> liveStreams s' = liveStreams (stopCapture s)
            \<and> (\<exists>msg. analysisError s' = Some msg \<and> msg \<noteq> []))"
proof (cases "startCapture_try env s")
  case (Inl a)
  obtain e s1 where a: "a = (e, s1)" by (cases a)
  from Inl a assms have "ok = False"
    "s' = s1\<lparr>analysisError := Some (''Failed to start capture: '' @ errorMessage e)\<rparr>"
    by (simp_all add: startCapture_def)
  then show ?thesis using startCapture_try_Inl[of env s e s1] Inl a by simp
next
  case (Inr b)
  with assms have "startCapture_try env s = Inr (ok, s')" by (simp add: startCapture_def)
  then show ?thesis by (rule startCapture_try_Inr)
qed

text \<open>
  Claim C3. A \<^verbatim>\<open>startCapture\<close> that returns true leaves \<^verbatim>\<open>isCapturing\<close> true, a
  stream held and no error. One that returns false leaves \<^verbatim>\<open>isCapturing\<close> false,
  no stream held and a non-empty message in \<^verbatim>\<open>analysisError\<close>, whatever the
  capture source and the platform's answers. An exception that leaves the outer
  \<^verbatim>\<open>try\<close> block is taken by its \<^verbatim>\<open>catch\<close> and becomes such a return, so none
  leaves the call. When the camera is denied the message is the denial message.
\<close>

theorem startCapture_reports_failure:
  "(startCapture env s = (ok, s') \<longrightarrow>
      (if ok then isCapturing s' \<and> currentStream s' \<noteq> None \<and> analysisError s' = None
       else \<not> isCapturing s' \<and> currentStream s' = None
            \<and> (\<exists>msg. analysisError s' = Some msg \<and> msg \<noteq> [])))
   \<and> (startCapture_try env s = Inl (e, s1) \<longrightarrow>
        startCapture env s =
          (False, s1\<lparr>analysisError := Some (''Failed to start capture: '' @ errorMessage e)\<rparr>))
   \<and> (captureSource s = Camera \<and> navigatorThrows env = None \<and> hasGetUserMedia env
       \<and> acquire env = Inl (ErrorObj m)
       \<and> (includes_str m ''NotAllowedError'' \<or> includes_str m ''Permission denied'') \<longrightarrow>
        startCapture env s =
          (False, (stopCapture s)\<lparr>analysisError :=
             Some ''Camera access was denied. Please allow camera permissions and try again.''\<rparr>))"
proof (intro conjI impI)
  assume "startCapture env s = (ok, s')"
  from startCapture_result[OF this]
  show "if ok then isCapturing s' \<and> currentStream s' \<noteq> None \<and> analysisError s' = None
       else \<not> isCapturing s' \<and> currentStream s' = None
            \<and> (\<exists>msg. analysisError s' = Some msg \<and> msg \<noteq> [])"
    by (auto split: if_splits)
next
  assume "startCapture_try env s = Inl (e, s1)"
  then show "startCapture env s =
          (False, s1\<lparr>analysisError := Some (''Failed to start capture: '' @ errorMessage e)\<rparr>)"
    by (simp add: startCapture_def)
next
  assume a: "captureSource s = Camera \<and> navigatorThrows env = None \<and> hasGetUserMedia env
       \<and> acquire env = Inl (ErrorObj m)
       \<and> (includes_str m ''NotAllowedError'' \<or> includes_str m ''Permission denied'')"
  have cs: "captureSource (stopCapture s) = Camera"
    using a by (simp add: stopCapture_def Let_def split: option.splits)
  show "startCapture env s =
          (False, (stopCapture s)\<lparr>analysisError :=
             Some ''Camera access was denied. Please allow camera permissions and try again.''\<rparr>)"
    using a cs by (auto simp: startCapture_def startCapture_try_def Let_def)
qed

theorem startCapture_reports_failure_witness:
  "startCapture denyingBrowser (initialStore\<lparr>captureSource := Camera\<rparr>) =
     (False, initialStore\<lparr>captureSource := Camera, analysisError :=
        Some ''Camera access was denied. Please allow camera permissions and try again.''\<rparr>)
   \<and> \<not> isCapturing (snd (startCapture denyingBrowser (initialStore\<lparr>captureSource := Camera\<rparr>)))
   \<and> startCapture grantingBrowser initialStore = (True, capturingStore)
   \<and> isCapturing capturingStore
   \<and> startCapture_try (grantingBrowser\<lparr>navigatorThrows := Some NonError\<rparr>) initialStore
       = Inl (NonError, initialStore)
   \<and> startCapture (grantingBrowser\<lparr>navigatorThrows := Some NonError\<rparr>) initialStore
       = (False, initialStore\<lparr>analysisError := Some ''Failed to start capture: Unknown error''\<rparr>)"
proof -
  let ?c = "initialStore\<lparr>captureSource := Camera\<rparr>"
  have st: "stopCapture ?c = ?c" by (simp add: stopCapture_def initialStore_def)
  have d: "captureSource ?c = Camera" "navigatorThrows denyingBrowser = None"
    "hasGetUserMedia denyingBrowser" "acquire denyingBrowser = Inl (ErrorObj ''Permission denied'')"
    "includes_str ''Permission denied'' ''Permission denied''"
    by (simp_all add: denyingBrowser_def)
  from startCapture_reports_failure[of denyingBrowser ?c False ?c NonError ?c "''Permission denied''"] d
  have 1: "startCapture denyingBrowser ?c =
     (False, (stopCapture ?c)\<lparr>analysisError :=
        Some ''Camera access was denied. Please allow camera permissions and try again.''\<rparr>)"
    by blast
  have g: "startCapture grantingBrowser initialStore = (True, capturingStore)"
    by (simp add: capturingStore_eq startCapture_def startCapture_try_def stopCapture_def
      initialStore_def grantingBrowser_def holdStream_def startCapture_finish_def)
  from startCapture_reports_failure[of grantingBrowser initialStore True capturingStore NonError initialStore "[]"] g
  have 2: "isCapturing capturingStore" by simp
  have t: "startCapture_try (grantingBrowser\<lparr>navigatorThrows := Some NonError\<rparr>) initialStore
       = Inl (NonError, initialStore)"
    by (simp add: startCapture_try_def stopCapture_def initialStore_def grantingBrowser_def)
  from startCapture_reports_failure[of "grantingBrowser\<lparr>navigatorThrows := Some NonError\<rparr>"
      initialStore False initialStore NonError initialStore "[]"] t
  have 3: "startCapture (grantingBrowser\<lparr>navigatorThrows := Some NonError\<rparr>) initialStore
       = (False, initialStore\<lparr>analysisError := Some ''Failed to start capture: Unknown error''\<rparr>)"
    by simp
  have i: "\<not> isCapturing initialStore" by (simp add: initialStore_def)
  from 1 st g 2 t 3 i show ?thesis by simp
qed

subsection \<open>The stream and timer disciplines\<close>

lemma stopCapture_oneStream:
  "oneStream s \<Longrightarrow> liveStreams (stopCapture s) = []"
  by (auto simp: oneStream_def stopCapture_def Let_def split: option.splits)

lemma oneStream_stopCapture: "oneStream s \<Longrightarrow> oneStream (stopCapture s)"
  by (auto simp: oneStream_def stopCapture_def Let_def split: option.splits)

lemma oneStream_startCapture:
  assumes "oneStream s" "startCapture env s = (ok, s')"
  shows "oneStream s'
         \<and> (if ok then acquire env = Inr (currentStream s') \<and> liveStreams s' = [the (currentStream s')]
             else currentStream s' = None \<and> liveStreams s' = [])"
  using startCapture_result[OF assms(2)] stopCapture_oneStream[OF assms(1)]
  by (auto simp: oneStream_def split: if_splits)

lemma captureFrame_streams:
  "liveStreams (snd (captureFrame env options s)) = liveStreams s
   \<and> currentStream (snd (captureFrame env options s)) = currentStream s
   \<and> isCapturing (snd (captureFrame env options s)) = isCapturing s"
  by (simp add: captureFrame_def captureFrame_try_def Let_def split: option.splits)

lemma analyzeImage_streams:
  "liveStreams (snd (analyzeImage env img prompt s)) = liveStreams s
   \<and> currentStream (snd (analyzeImage env img prompt s)) = currentStream s
   \<and> isCapturing (snd (analyzeImage env img prompt s)) = isCapturing s"
  by (simp add: analyzeImage_def analyzeImage_settle_def analyzeImage_try_def analyzeImage_begin_def
      issue_def Let_def split: analysis_outcome.splits)

lemma captureAndAnalyze_streams:
  "liveStreams (snd (captureAndAnalyze fenv aenv prompt s)) = liveStreams s
   \<and> currentStream (snd (captureAndAnalyze fenv aenv prompt s)) = currentStream s
   \<and> isCapturing (snd (captureAndAnalyze fenv aenv prompt s)) = isCapturing s"
proof (cases "captureFrame fenv None s")
  case (Pair r s1)
  with captureFrame_streams[of fenv None s]
  have k: "liveStreams s1 = liveStreams s" "currentStream s1 = currentStream s"
    "isCapturing s1 = isCapturing s" by simp_all
  show ?thesis
    using Pair k analyzeImage_streams[of aenv _ prompt s1]
    by (simp add: captureAndAnalyze_def split: option.splits)
qed

lemma continuous_streams:
  "liveStreams (stopContinuousCapture s) = liveStreams s
   \<and> currentStream (stopContinuousCapture s) = currentStream s
   \<and> isCapturing (stopContinuousCapture s) = isCapturing s
   \<and> liveStreams (startContinuousCapture h s) = liveStreams s
   \<and> currentStream (startContinuousCapture h s) = currentStream s
   \<and> isCapturing (startContinuousCapture h s) = isCapturing s"
  by (simp add: stopContinuousCapture_def startContinuousCapture_def Let_def split: option.splits)

lemma resetState_streams:
  "liveStreams (resetState s) = liveStreams (stopCapture s)
   \<and> currentStream (resetState s) = None
   \<and> isCapturing (resetState s) = False"
  by (simp add: resetState_def reset_defs stopCapture_def stopContinuousCapture_def Let_def
      split: option.splits)

lemma oneStream_run: "oneStream s \<Longrightarrow> oneStream (run op s)"
proof (cases op)
  case (StartCapture env)
  assume "oneStream s"
  then show ?thesis
    using StartCapture oneStream_startCapture[of s env "fst (startCapture env s)" "snd (startCapture env s)"]
    by simp
next
  case StopCapture
  assume "oneStream s"
  then show ?thesis using StopCapture by (simp add: oneStream_stopCapture)
next
  case (CaptureFrame env options)
  assume "oneStream s"
  then show ?thesis using CaptureFrame captureFrame_streams[of env options s]
    by (simp add: oneStream_def)
next
  case (AnalyzeImage env img prompt)
  assume "oneStream s"
  then show ?thesis using AnalyzeImage analyzeImage_streams[of env img prompt s]
    by (simp add: oneStream_def)
next
  case (CaptureAndAnalyze fenv aenv prompt)
  assume "oneStream s"
  then show ?thesis using CaptureAndAnalyze captureAndAnalyze_streams[of fenv aenv prompt s]
    by (simp add: oneStream_def)
next
  case (StartContinuousCapture h)
  assume "oneStream s"
  then show ?thesis using StartContinuousCapture continuous_streams[of s h]
    by (simp add: oneStream_def)
next
  case StopContinuousCapture
  assume "oneStream s"
  then show ?thesis using StopContinuousCapture continuous_streams[of s 0]
    by (simp add: oneStream_def)
next
  case (FetchDesktopSources env)
  assume "oneStream s"
  then show ?thesis using FetchDesktopSources fetchDesktopSources_keeps[of env s]
    by (simp add: oneStream_def)
next
  case ResetState
  assume "oneStream s"
  then show ?thesis using ResetState resetState_streams[of s] stopCapture_oneStream[of s]
    by (simp add: oneStream_def)
next
  case (Tick fenv aenv)
  assume "oneStream s"
  then show ?thesis using Tick captureAndAnalyze_streams[of fenv aenv None s]
    by (simp add: oneStream_def tick_def)
qed

lemma oneStream_fold: "oneStream s \<Longrightarrow> oneStream (fold run ops s)"
  by (induction ops arbitrary: s) (simp_all add: oneStream_run)

lemma oneStream_fresh: "oneStream (freshSession settings)"
  by (simp add: oneStream_def freshSession_def)

text \<open>
  A call that waits for its stream has left no stream held; the other operations keep
  it so; and the rest of the call, run on such a store, holds the stream it is given.
\<close>

lemma startCapture_begin_idle:
  assumes "oneStream s" "startCapture_begin env s = Inr (p, s1)"
  shows "oneStream s1 \<and> currentStream s1 = None"
proof -
  define s0 where "s0 = (stopCapture s)\<lparr>analysisError := None\<rparr>"
  have s0: "liveStreams s0 = []" "currentStream s0 = None" "\<not> isCapturing s0"
    using stopCapture_oneStream[OF assms(1)]
    by (simp_all add: s0_def stopCapture_def Let_def split: option.splits)
  obtain r s2 where c: "chooseDesktopSource env s0 = (r, s2)" by fastforce
  from chooseDesktopSource_keeps[of env s0] c s0
  have s2: "liveStreams s2 = []" "currentStream s2 = None" "\<not> isCapturing s2" by simp_all
  have "s1 = s0 \<or> s1 = s2"
    using assms(2) c unfolding startCapture_begin_def Let_def s0_def[symmetric]
    by (auto split: if_splits option.splits)
  then show ?thesis using s0 s2 by (auto simp: oneStream_def)
qed

lemma run_keeps_unheld:
  assumes "currentStream s = None" "\<not> isStartCapture op"
  shows "currentStream (run op s) = None"
proof (cases op)
  case (StartCapture env)
  with assms(2) show ?thesis by simp
next
  case StopCapture
  then show ?thesis by (simp add: stopCapture_def Let_def split: option.splits)
next
  case (CaptureFrame env options)
  then show ?thesis using assms(1) captureFrame_streams[of env options s] by simp
next
  case (AnalyzeImage env img prompt)
  then show ?thesis using assms(1) analyzeImage_streams[of env img prompt s] by simp
next
  case (CaptureAndAnalyze fenv aenv prompt)
  then show ?thesis using assms(1) captureAndAnalyze_streams[of fenv aenv prompt s] by simp
next
  case (StartContinuousCapture h)
  then show ?thesis using assms(1) continuous_streams[of s h] by simp
next
  case StopContinuousCapture
  then show ?thesis using assms(1) continuous_streams[of s 0] by simp
next
  case (FetchDesktopSources env)
  then show ?thesis using assms(1) fetchDesktopSources_keeps[of env s] by simp
next
  case ResetState
  then show ?thesis using resetState_streams[of s] by simp
next
  case (Tick fenv aenv)
  then show ?thesis using assms(1) captureAndAnalyze_streams[of fenv aenv None s]
    by (simp add: tick_def)
qed

lemma fold_keeps_unheld:
  "oneStream s \<Longrightarrow> currentStream s = None \<Longrightarrow> filter isStartCapture ops = []
   \<Longrightarrow> oneStream (fold run ops s) \<and> currentStream (fold run ops s) = None"
proof (induction ops arbitrary: s)
  case Nil
  then show ?case by simp
next
  case (Cons op ops)
  from Cons.prems(3) have op: "\<not> isStartCapture op" and rest: "filter isStartCapture ops = []"
    by (simp_all split: if_splits)
  from Cons.IH[OF oneStream_run[OF Cons.prems(1), of op] run_keeps_unheld[OF Cons.prems(2) op] rest]
  show ?case by simp
qed

lemma startCapture_resume_unheld:
  assumes "oneStream s" "currentStream s = None"
  shows "oneStream (snd (startCapture_resume env p s))"
proof -
  have idle: "liveStreams s = []" "\<not> isCapturing s" using assms by (simp_all add: oneStream_def)
  show ?thesis
  proof (cases "acquire env")
    case (Inl e)
    then show ?thesis using assms idle by (simp add: startCapture_resume_def oneStream_def)
  next
    case (Inr st)
    then show ?thesis using assms idle
      by (cases st)
         (simp_all add: startCapture_resume_def startCapture_finish_def holdStream_def oneStream_def)
  qed
qed

text \<open>The split of the call is the call.\<close>

lemma startCapture_split:
  "startCapture env s =
     (case startCapture_begin env s of
        Inl r \<Rightarrow> r
      | Inr (p, s1) \<Rightarrow> startCapture_resume env p s1)"
  by (simp add: startCapture_def startCapture_try_def startCapture_begin_def
      startCapture_resume_def Let_def split: prod.splits option.splits sum.splits)

text \<open>
  Claim C1, as the code has it. Provided no \<^verbatim>\<open>startCapture\<close> call starts while
  another one waits for its stream, the calls otherwise running one after the other:
  after any sequence of operations on a new store the live streams are exactly the
  held one, so there is at most one, and \<^verbatim>\<open>isCapturing\<close> is true iff a stream is
  held. \<^verbatim>\<open>startCapture\<close> stops the capture first: it does the same from a store and
  from that store once stopped. From a store under this discipline, every operation
  keeps it, and after two \<^verbatim>\<open>startCapture\<close> calls in a row the only live stream is
  the one the second call acquired (none, when it failed). The discipline also holds
  while a \<^verbatim>\<open>startCapture\<close> call waits for its stream and other operations run, and
  once the call has resumed.
\<close>

theorem one_live_stream:
  "oneStream (fold run ops (freshSession settings))
   \<and> length (liveStreams (fold run ops (freshSession settings))) \<le> 1
   \<and> startCapture env s = startCapture env (stopCapture s)
   \<and> (oneStream s \<longrightarrow>
        oneStream (snd (startCapture env1 s))
        \<and> oneStream (snd (startCapture env2 (snd (startCapture env1 s))))
        \<and> (if fst (startCapture env2 (snd (startCapture env1 s)))
            then acquire env2 = Inr (currentStream (snd (startCapture env2 (snd (startCapture env1 s)))))
                 \<and> liveStreams (snd (startCapture env2 (snd (startCapture env1 s))))
                     = [the (currentStream (snd (startCapture env2 (snd (startCapture env1 s)))))]
            else currentStream (snd (startCapture env2 (snd (startCapture env1 s)))) = None
                 \<and> liveStreams (snd (startCapture env2 (snd (startCapture env1 s)))) = []))
   \<and> (oneStream s \<longrightarrow> oneStream (run op s))
   \<and> (oneStream s \<and> startCapture_begin env1 s = Inr (p, s1) \<and> filter isStartCapture between = [] \<longrightarrow>
        oneStream (fold run between s1)
        \<and> oneStream (snd (startCapture_resume env1 p (fold run between s1))))"
proof -
  have reach: "oneStream (fold run ops (freshSession settings))"
    by (rule oneStream_fold[OF oneStream_fresh])
  then have len: "length (liveStreams (fold run ops (freshSession settings))) \<le> 1"
    by (simp add: oneStream_def split: option.splits)
  have stop: "startCapture env s = startCapture env (stopCapture s)"
    by (simp add: startCapture_def startCapture_try_stop)
  have two: "oneStream (snd (startCapture env1 s))
        \<and> oneStream (snd (startCapture env2 (snd (startCapture env1 s))))
        \<and> (if fst (startCapture env2 (snd (startCapture env1 s)))
            then acquire env2 = Inr (currentStream (snd (startCapture env2 (snd (startCapture env1 s)))))
                 \<and> liveStreams (snd (startCapture env2 (snd (startCapture env1 s))))
                     = [the (currentStream (snd (startCapture env2 (snd (startCapture env1 s)))))]
            else currentStream (snd (startCapture env2 (snd (startCapture env1 s)))) = None
                 \<and> liveStreams (snd (startCapture env2 (snd (startCapture env1 s)))) = [])"
    if "oneStream s"
  proof -
    have 1: "oneStream (snd (startCapture env1 s))"
      using oneStream_startCapture[OF that, of env1 "fst (startCapture env1 s)" "snd (startCapture env1 s)"]
      by simp
    from oneStream_startCapture[OF 1, of env2 "fst (startCapture env2 (snd (startCapture env1 s)))"
        "snd (startCapture env2 (snd (startCapture env1 s)))"] 1
    show ?thesis by simp
  qed
  have waiting: "oneStream (fold run between s1)
        \<and> oneStream (snd (startCapture_resume env1 p (fold run between s1)))"
    if "oneStream s" "startCapture_begin env1 s = Inr (p, s1)" "filter isStartCapture between = []"
  proof -
    from startCapture_begin_idle[OF that(1) that(2)]
    have "oneStream s1" "currentStream s1 = None" by simp_all
    from fold_keeps_unheld[OF this that(3)] startCapture_resume_unheld[of "fold run between s1" env1 p]
    show ?thesis by simp
  qed
  from reach len stop two oneStream_run waiting show ?thesis by blast
qed

theorem one_live_stream_witness:
  "oneStream initialStore
   \<and> startCapture grantingBrowser initialStore = (True, capturingStore)
   \<and> oneStream capturingStore
   \<and> fst (startCapture secondGrant capturingStore)
   \<and> currentStream (snd (startCapture secondGrant capturingStore)) = Some 2
   \<and> liveStreams (snd (startCapture secondGrant capturingStore)) = [2]
   \<and> oneStream (run StopCapture capturingStore)
   \<and> startCapture_begin secondGrant capturingStore = Inr (BrowserDisplay, initialStore)
   \<and> filter isStartCapture [StopCapture, ResetState] = []
   \<and> oneStream (snd (startCapture_resume secondGrant BrowserDisplay
                        (fold run [StopCapture, ResetState] initialStore)))"
proof -
  have i: "oneStream initialStore" by (simp add: oneStream_def initialStore_def)
  have g: "startCapture grantingBrowser initialStore = (True, capturingStore)"
    by (simp add: capturingStore_eq startCapture_def startCapture_try_def stopCapture_def
      initialStore_def grantingBrowser_def holdStream_def startCapture_finish_def)
  have ok: "fst (startCapture secondGrant capturingStore)"
    by (simp add: capturingStore_eq startCapture_def startCapture_try_def stopCapture_def
      initialStore_def grantingBrowser_def secondGrant_def holdStream_def startCapture_finish_def)
  have a: "acquire secondGrant = Inr (Some 2)" by (simp add: secondGrant_def)
  have b: "startCapture_begin secondGrant capturingStore = Inr (BrowserDisplay, initialStore)"
    by (simp add: startCapture_begin_def capturingStore_eq stopCapture_def initialStore_def
      grantingBrowser_def secondGrant_def)
  have f: "filter isStartCapture [StopCapture, ResetState] = []" by simp
  note T = one_live_stream[where ops="[]" and settings=initialStore and env=grantingBrowser
      and s=initialStore and ?env1.0=grantingBrowser and ?env2.0=secondGrant and op=StopCapture
      and p=BrowserDisplay and ?s1.0=initialStore and between="[]"]
  note U = one_live_stream[where ops="[]" and settings=initialStore and env=grantingBrowser
      and s=capturingStore and ?env1.0=secondGrant and ?env2.0=secondGrant and op=StopCapture
      and p=BrowserDisplay and ?s1.0=initialStore and between="[StopCapture, ResetState]"]
  from T i g have c: "oneStream capturingStore" by simp
  from T i g ok have s2: "acquire secondGrant = Inr (currentStream (snd (startCapture secondGrant capturingStore)))"
    "liveStreams (snd (startCapture secondGrant capturingStore))
       = [the (currentStream (snd (startCapture secondGrant capturingStore)))]"
    by simp_all
  from s2(1) a have cur: "currentStream (snd (startCapture secondGrant capturingStore)) = Some 2"
    by simp
  with s2(2) have 2: "currentStream (snd (startCapture secondGrant capturingStore)) = Some 2"
    "liveStreams (snd (startCapture secondGrant capturingStore)) = [2]"
    by simp_all
  from U c have 3: "oneStream (run StopCapture capturingStore)" by blast
  from U c b f have 4: "oneStream (snd (startCapture_resume secondGrant BrowserDisplay
                        (fold run [StopCapture, ResetState] initialStore)))" by blast
  from i g c ok 2 3 4 b f show ?thesis by blast
qed

text \<open>
  Claim C1 as stated has at most one live stream at any time. \<^verbatim>\<open>stopCapture()\<close> runs
  before the \<^verbatim>\<open>await\<close>, and nothing keeps a second call from starting while the
  first one waits (the settings page has two buttons that call \<^verbatim>\<open>startCapture\<close>
  while \<^verbatim>\<open>isCapturing\<close> is false). Both calls then stop nothing, the first stores
  stream 1, the second stores stream 2 over it: both streams are live and stream 1 is
  referenced nowhere.
\<close>

theorem overlapping_calls_leave_two_streams:
  "startCapture_begin grantingBrowser initialStore = Inr (BrowserDisplay, initialStore)
   \<and> startCapture_begin secondGrant initialStore = Inr (BrowserDisplay, initialStore)
   \<and> liveStreams overlappingCalls = [1, 2]
   \<and> currentStream overlappingCalls = Some 2
   \<and> \<not> length (liveStreams overlappingCalls) \<le> 1
   \<and> \<not> oneStream overlappingCalls"
  by (simp add: overlappingCalls_def startCapture_begin_def startCapture_resume_def
      startCapture_finish_def holdStream_def stopCapture_def oneStream_def
      initialStore_def grantingBrowser_def secondGrant_def)

text \<open>
  The timer discipline and the absence of an analysis in flight hold as well after any
  sequence of operations on a new store.
\<close>

lemma captureFrame_timers:
  "activeTimers (snd (captureFrame env options s)) = activeTimers s
   \<and> captureIntervalId (snd (captureFrame env options s)) = captureIntervalId s"
  by (simp add: captureFrame_def captureFrame_try_def Let_def split: option.splits)

lemma analyzeImage_timers:
  "activeTimers (snd (analyzeImage env img prompt s)) = activeTimers s
   \<and> captureIntervalId (snd (analyzeImage env img prompt s)) = captureIntervalId s"
  by (simp add: analyzeImage_def analyzeImage_settle_def analyzeImage_try_def analyzeImage_begin_def
      issue_def Let_def split: analysis_outcome.splits)

lemma captureAndAnalyze_timers:
  "activeTimers (snd (captureAndAnalyze fenv aenv prompt s)) = activeTimers s
   \<and> captureIntervalId (snd (captureAndAnalyze fenv aenv prompt s)) = captureIntervalId s"
proof (cases "captureFrame fenv None s")
  case (Pair r s1)
  with captureFrame_timers[of fenv None s]
  have k: "activeTimers s1 = activeTimers s" "captureIntervalId s1 = captureIntervalId s" by simp_all
  show ?thesis
    using Pair k analyzeImage_timers[of aenv _ prompt s1]
    by (simp add: captureAndAnalyze_def split: option.splits)
qed

lemma stopCapture_timers:
  "activeTimers (stopCapture s) = activeTimers s \<and> captureIntervalId (stopCapture s) = captureIntervalId s"
  by (simp add: stopCapture_def Let_def split: option.splits)

lemma startCapture_timers:
  "activeTimers (snd (startCapture env s)) = activeTimers s
   \<and> captureIntervalId (snd (startCapture env s)) = captureIntervalId s"
  using startCapture_result[of env s "fst (startCapture env s)" "snd (startCapture env s)"]
  by simp

lemma resetState_timers:
  "activeTimers (resetState s) = activeTimers (stopContinuousCapture s)
   \<and> captureIntervalId (resetState s) = None"
  by (simp add: resetState_def reset_defs stopCapture_def stopContinuousCapture_def Let_def
      split: option.splits)

lemma oneTimer_run: "oneTimer s \<Longrightarrow> oneTimer (run op s)"
proof (cases op)
  case (StartCapture env)
  assume "oneTimer s"
  then show ?thesis using StartCapture startCapture_timers[of env s] by (simp add: oneTimer_def)
next
  case StopCapture
  assume "oneTimer s"
  then show ?thesis using StopCapture stopCapture_timers[of s] by (simp add: oneTimer_def)
next
  case (CaptureFrame env options)
  assume "oneTimer s"
  then show ?thesis using CaptureFrame captureFrame_timers[of env options s] by (simp add: oneTimer_def)
next
  case (AnalyzeImage env img prompt)
  assume "oneTimer s"
  then show ?thesis using AnalyzeImage analyzeImage_timers[of env img prompt s] by (simp add: oneTimer_def)
next
  case (CaptureAndAnalyze fenv aenv prompt)
  assume "oneTimer s"
  then show ?thesis using CaptureAndAnalyze captureAndAnalyze_timers[of fenv aenv prompt s]
    by (simp add: oneTimer_def)
next
  case (StartContinuousCapture h)
  assume "oneTimer s"
  then show ?thesis using StartContinuousCapture oneTimer_stop[of s]
    by (simp add: oneTimer_def startContinuousCapture_def Let_def)
next
  case StopContinuousCapture
  assume "oneTimer s"
  then show ?thesis using StopContinuousCapture oneTimer_stop[of s]
    by (simp add: oneTimer_def stopContinuousCapture_def split: option.splits)
next
  case (FetchDesktopSources env)
  assume "oneTimer s"
  then show ?thesis using FetchDesktopSources fetchDesktopSources_keeps[of env s]
    by (simp add: oneTimer_def)
next
  case ResetState
  assume "oneTimer s"
  then show ?thesis using ResetState oneTimer_stop[of s] resetState_timers[of s]
    by (simp add: oneTimer_def)
next
  case (Tick fenv aenv)
  assume "oneTimer s"
  then show ?thesis using Tick captureAndAnalyze_timers[of fenv aenv None s]
    by (simp add: oneTimer_def tick_def)
qed

lemma oneTimer_reachable: "oneTimer (fold run ops (freshSession settings))"
proof -
  have "oneTimer s \<Longrightarrow> oneTimer (fold run ops s)" for s
    by (induction ops arbitrary: s) (simp_all add: oneTimer_run)
  moreover have "oneTimer (freshSession settings)" by (simp add: oneTimer_def freshSession_def)
  ultimately show ?thesis .
qed


lemma captureAndAnalyze_idle:
  "\<not> isAnalyzing s \<Longrightarrow> \<not> isAnalyzing (snd (captureAndAnalyze fenv aenv prompt s))"
proof (cases "captureFrame fenv None s")
  case (Pair r s1)
  assume idle: "\<not> isAnalyzing s"
  have "isAnalyzing s1 = isAnalyzing s"
    using Pair by (auto simp: captureFrame_def captureFrame_try_def Let_def split: option.splits if_splits)
  with idle have "\<not> isAnalyzing (snd (analyzeImage aenv u prompt s1))" for u
    by (simp add: analyzeImage_def analyzeImage_settle_def split: sum.splits prod.splits)
  with Pair idle \<open>isAnalyzing s1 = isAnalyzing s\<close> show ?thesis
    by (simp add: captureAndAnalyze_def split: option.splits)
qed

lemma idle_run: "\<not> isAnalyzing s \<Longrightarrow> \<not> isAnalyzing (run op s)"
proof (cases op)
  case (StartCapture env)
  assume "\<not> isAnalyzing s"
  then show ?thesis
    using StartCapture startCapture_result[of env s "fst (startCapture env s)" "snd (startCapture env s)"]
    by simp
next
  case (AnalyzeImage env img prompt)
  assume "\<not> isAnalyzing s"
  then show ?thesis using AnalyzeImage
    by (simp add: analyzeImage_def analyzeImage_settle_def split: sum.splits prod.splits)
next
  case (CaptureAndAnalyze fenv aenv prompt)
  assume "\<not> isAnalyzing s"
  then show ?thesis using CaptureAndAnalyze by (simp add: captureAndAnalyze_idle)
next
  case (Tick fenv aenv)
  assume "\<not> isAnalyzing s"
  then show ?thesis using Tick by (simp add: tick_def captureAndAnalyze_idle)
next
  case (FetchDesktopSources env)
  assume "\<not> isAnalyzing s"
  then show ?thesis using FetchDesktopSources fetchDesktopSources_keeps[of env s] by simp
next
  case (CaptureFrame env options)
  assume "\<not> isAnalyzing s"
  then show ?thesis using CaptureFrame
    by (simp add: captureFrame_def captureFrame_try_def Let_def split: option.splits)
next
  case ResetState
  assume "\<not> isAnalyzing s"
  then show ?thesis using ResetState
    by (simp add: resetState_def reset_defs stopCapture_def stopContinuousCapture_def Let_def
        split: option.splits)
qed (simp_all add: stopCapture_def stopContinuousCapture_def startContinuousCapture_def Let_def
      split: option.splits)

lemma idle_reachable: "\<not> isAnalyzing (fold run ops (freshSession settings))"
proof -
  have "\<not> isAnalyzing s \<Longrightarrow> \<not> isAnalyzing (fold run ops s)" for s
    by (induction ops arbitrary: s) (simp_all add: idle_run)
  moreover have "\<not> isAnalyzing (freshSession settings)" by (simp add: freshSession_def)
  ultimately show ?thesis .
qed

end
